theory Spec2Isabelle
  imports
    Complex_Main
    "HOL-Library.AList"
    "HOL-Library.Sublist"
    "HOL-Library.Multiset"
    "HOL-Library.Char_ord"
    "HOL-Library.List_Lexorder"
    "HOL-Library.Product_Lexorder"
begin

section \<open>JavaScript values\<close>

text \<open>
  A JavaScript string is a sequence of UTF-16 code units. The model writes one \<^typ>\<open>char\<close>
  per code unit and so covers the strings whose code units are below 256.

  A JavaScript number is an IEEE double. The model keeps the three non-finite values apart
  and writes a finite number as a real: rounding, overflow and the negative zero are not
  modelled.
\<close>

datatype number = Fin real | PosInfinity | NegInfinity | NaN

text \<open>
  The values: the primitive ones, arrays, plain objects (the list of their own
  properties), and built-in functions, each known by its name.
\<close>

datatype jsval =
    JUndefined
  | JNull
  | JBool bool
  | JNum number
  | JStr string
  | JArr "jsval list"
  | JObj "(string \<times> jsval) list"
  | JFunction string

text \<open>\<open>ToBoolean\<close>: what \<open>if (v)\<close>, \<open>!v\<close> and \<open>v || w\<close> test.\<close>

fun truthy :: "jsval \<Rightarrow> bool" where
  "truthy JUndefined = False"
| "truthy JNull = False"
| "truthy (JBool b) = b"
| "truthy (JNum (Fin r)) = (r \<noteq> 0)"
| "truthy (JNum NaN) = False"
| "truthy (JNum PosInfinity) = True"
| "truthy (JNum NegInfinity) = True"
| "truthy (JStr s) = (s \<noteq> [])"
| "truthy (JArr xs) = True"
| "truthy (JObj kvs) = True"
| "truthy (JFunction n) = True"

text \<open>\<open>a || b\<close> on values.\<close>

definition or_else :: "jsval \<Rightarrow> jsval \<Rightarrow> jsval" where
  "or_else a b = (if truthy a then a else b)"

subsection \<open>Characters\<close>

definition charCode :: "char \<Rightarrow> nat" where
  "charCode c = of_char c"

definition isDigit :: "char \<Rightarrow> bool" where
  "isDigit c = (48 \<le> charCode c \<and> charCode c \<le> 57)"

definition digitVal :: "char \<Rightarrow> nat" where
  "digitVal c = charCode c - 48"

text \<open>The white space and line terminator code units below 256.\<close>

definition isWhiteSpace :: "char \<Rightarrow> bool" where
  "isWhiteSpace c = (charCode c \<in> {9, 10, 11, 12, 13, 32, 160})"

text \<open>\<open>String.prototype.trim\<close>.\<close>

definition trim :: "string \<Rightarrow> string" where
  "trim s = rev (dropWhile isWhiteSpace (rev (dropWhile isWhiteSpace s)))"

text \<open>
  \<open>String.prototype.toLowerCase\<close> on code units below 256: the ASCII capitals and the
  Latin-1 capitals (all of \<open>0xC0..0xDE\<close> but the multiplication sign) move up by 32.
\<close>

definition lowerChar :: "char \<Rightarrow> char" where
  "lowerChar c =
     (let n = charCode c
      in if (65 \<le> n \<and> n \<le> 90) \<or> (192 \<le> n \<and> n \<le> 222 \<and> n \<noteq> 215)
         then char_of (n + 32) else c)"

definition toLowerCase :: "string \<Rightarrow> string" where
  "toLowerCase s = map lowerChar s"

text \<open>\<open>String.prototype.includes\<close>: the argument occurs as a contiguous run.\<close>

definition includes_str :: "string \<Rightarrow> string \<Rightarrow> bool" where
  "includes_str s t = sublist t s"

text \<open>\<open>String.prototype.split\<close> at a one-character separator.\<close>

fun split :: "char \<Rightarrow> string \<Rightarrow> string list" where
  "split sep [] = [[]]"
| "split sep (c # cs) =
     (if c = sep then [] # split sep cs
      else (case split sep cs of
              [] \<Rightarrow> [[c]]
            | p # ps \<Rightarrow> (c # p) # ps))"

subsection \<open>Numeric literals\<close>

definition decimalValue :: "string \<Rightarrow> nat" where
  "decimalValue ds = foldl (\<lambda>acc c. 10 * acc + digitVal c) 0 ds"

text \<open>
  The exponent part of a decimal literal, with the rest of the string; \<open>None\<close> when
  the string does not start with a complete exponent part.
\<close>

definition exponentPart :: "string \<Rightarrow> (int \<times> string) option" where
  "exponentPart s =
     (case s of
        [] \<Rightarrow> None
      | c # r \<Rightarrow>
          if c = CHR ''e'' \<or> c = CHR ''E'' then
            (let neg = (case r of [] \<Rightarrow> False | d # _ \<Rightarrow> d = CHR ''-'');
                 r' = (case r of [] \<Rightarrow> r
                       | d # r2 \<Rightarrow> if d = CHR ''-'' \<or> d = CHR ''+'' then r2 else r);
                 ds = takeWhile isDigit r'
             in if ds = [] then None
                else Some (if neg then - int (decimalValue ds) else int (decimalValue ds),
                           dropWhile isDigit r'))
          else None)"

definition scale10 :: "real \<Rightarrow> int \<Rightarrow> real" where
  "scale10 m e = (if 0 \<le> e then m * 10 ^ nat e else m / 10 ^ nat (- e))"

text \<open>
  The longest prefix that is an unsigned decimal literal (digits, an optional fraction,
  an optional exponent), its value and the rest of the string.
\<close>

definition unsignedDecimal :: "string \<Rightarrow> (real \<times> string) option" where
  "unsignedDecimal s =
     (let ip = takeWhile isDigit s;
          r1 = dropWhile isDigit s;
          dot = (case r1 of [] \<Rightarrow> False | c # _ \<Rightarrow> c = CHR ''.'');
          fp = (if dot then takeWhile isDigit (tl r1) else []);
          r2 = (if dot then dropWhile isDigit (tl r1) else r1)
      in if ip = [] \<and> fp = [] then None
         else
           (let m = real (decimalValue ip) + real (decimalValue fp) / 10 ^ length fp
            in case exponentPart r2 of
                 None \<Rightarrow> Some (m, r2)
               | Some (e, r3) \<Rightarrow> Some (scale10 m e, r3)))"

definition negate :: "number \<Rightarrow> number" where
  "negate n = (case n of Fin r \<Rightarrow> Fin (- r) | PosInfinity \<Rightarrow> NegInfinity
               | NegInfinity \<Rightarrow> PosInfinity | NaN \<Rightarrow> NaN)"

text \<open>
  A signed decimal literal or \<open>Infinity\<close> at the start of the string, with the rest.
\<close>

definition signedDecimal :: "string \<Rightarrow> (number \<times> string) option" where
  "signedDecimal s =
     (let neg = (case s of [] \<Rightarrow> False | c # _ \<Rightarrow> c = CHR ''-'');
          body = (case s of [] \<Rightarrow> s
                  | c # r \<Rightarrow> if c = CHR ''-'' \<or> c = CHR ''+'' then r else s);
          res = (if prefix ''Infinity'' body then Some (PosInfinity, drop 8 body)
                 else map_option (\<lambda>(v, r). (Fin v, r)) (unsignedDecimal body))
      in map_option (\<lambda>(v, r). (if neg then negate v else v, r)) res)"

definition digitOfBase :: "nat \<Rightarrow> char \<Rightarrow> nat option" where
  "digitOfBase b c =
     (let n = charCode c;
          v = (if 48 \<le> n \<and> n \<le> 57 then n - 48
               else if 97 \<le> n \<and> n \<le> 122 then n - 87
               else if 65 \<le> n \<and> n \<le> 90 then n - 55
               else b)
      in if v < b then Some v else None)"

definition isDigitOfBase :: "nat \<Rightarrow> char \<Rightarrow> bool" where
  "isDigitOfBase b c = (digitOfBase b c \<noteq> None)"

definition baseValue :: "nat \<Rightarrow> string \<Rightarrow> nat" where
  "baseValue b ds = foldl (\<lambda>acc c. b * acc + (case digitOfBase b c of None \<Rightarrow> 0 | Some v \<Rightarrow> v)) 0 ds"

text \<open>A \<open>0x\<close>, \<open>0o\<close> or \<open>0b\<close> prefix and the base it announces.\<close>

definition basePrefix :: "string \<Rightarrow> (nat \<times> string) option" where
  "basePrefix s =
     (case s of
        z # x # r \<Rightarrow>
          if z = CHR ''0'' then
            (if x = CHR ''x'' \<or> x = CHR ''X'' then Some (16, r)
             else if x = CHR ''o'' \<or> x = CHR ''O'' then Some (8, r)
             else if x = CHR ''b'' \<or> x = CHR ''B'' then Some (2, r)
             else None)
          else None
      | _ \<Rightarrow> None)"

text \<open>
  \<open>Number(s)\<close> for a string: the whole trimmed string has to be a numeric literal; the
  empty string is 0; anything else is \<open>NaN\<close>.
\<close>

definition Number :: "string \<Rightarrow> number" where
  "Number s =
     (let t = trim s
      in if t = [] then Fin 0
         else
           (case basePrefix t of
              Some (b, r) \<Rightarrow>
                if r \<noteq> [] \<and> list_all (isDigitOfBase b) r then Fin (real (baseValue b r))
                else NaN
            | None \<Rightarrow>
                (case signedDecimal t of
                   Some (v, []) \<Rightarrow> v
                 | _ \<Rightarrow> NaN)))"

section \<open>The schema (shared/shema.ts)\<close>

text \<open>
  A row of the \<open>users\<close> table and a row of the \<open>cards\<close> table. A column without
  \<open>notNull()\<close> can hold \<open>NULL\<close>, written \<open>None\<close>. The \<open>id\<close> columns are called
  \<open>id'\<close> and the \<open>notes\<close> column \<open>notes'\<close>. A timestamp is a number of clock ticks.
\<close>

record User =
  id' :: int
  username :: string
  password :: string

record Card =
  id' :: int
  playerName :: string
  sport :: string
  year :: int
  brand :: string
  cardSet :: "string option"
  condition :: string
  purchasePrice :: "number option"
  currentValue :: "number option"
  notes' :: "string option"
  imageUrl :: "string option"
  cardNumber :: "string option"
  userId :: "int option"
  createdAt :: "nat option"

text \<open>
  The database: the two tables (rows in their physical order), the sequence behind the
  serial \<open>id\<close> of \<open>cards\<close>, and the clock that \<open>defaultNow()\<close> reads.
\<close>

record database =
  users :: "User list"
  cards :: "Card list"
  nextId :: int
  clock :: nat

datatype dberror = QueryError

section \<open>The query operators of the database\<close>

text \<open>
  PostgreSQL's \<open>LIKE\<close>, pattern first: \<open>%\<close> stands for any run of characters, \<open>_\<close> for
  any one character, and a backslash takes the next pattern character literally.
  Characters are compared as they are: \<open>LIKE\<close> does not fold case. PostgreSQL rejects a
  pattern that ends in a lone backslash; a pattern of the form \<open>%s%\<close> never does, and
  the model answers \<open>False\<close> there.
\<close>

fun like_match :: "string \<Rightarrow> string \<Rightarrow> bool" where
  "like_match [] t = (t = [])"
| "like_match (p # ps) t =
     (if p = CHR ''%'' then
        (like_match ps t \<or> (case t of [] \<Rightarrow> False | c # cs \<Rightarrow> like_match (p # ps) cs))
      else if p = CHR ''_'' then
        (case t of [] \<Rightarrow> False | c # cs \<Rightarrow> like_match ps cs)
      else if p = CHR 0x5C then
        (case ps of
           [] \<Rightarrow> False
         | q # qs \<Rightarrow> (case t of [] \<Rightarrow> False | c # cs \<Rightarrow> c = q \<and> like_match qs cs))
      else
        (case t of [] \<Rightarrow> False | c # cs \<Rightarrow> c = p \<and> like_match ps cs))"

text \<open>
  \<open>like(column, pattern)\<close> on a column that may be \<open>NULL\<close>. The comparison with
  \<open>NULL\<close> is unknown, and a row passes a \<open>WHERE\<close> clause only when the clause is true;
  the clauses here are built from \<open>AND\<close> and \<open>OR\<close> alone, so unknown is written
  \<open>False\<close>.
\<close>

definition like :: "string option \<Rightarrow> string \<Rightarrow> bool" where
  "like col pat = (case col of None \<Rightarrow> False | Some t \<Rightarrow> like_match pat t)"

text \<open>
  A number bound as the parameter of a comparison with an \<open>integer\<close> column: the
  statement fails unless the number is an integer of 32 bits.
\<close>

definition int4_param :: "number \<Rightarrow> dberror + int" where
  "int4_param n =
     (case n of
        Fin r \<Rightarrow>
          if r = of_int \<lfloor>r\<rfloor> \<and> - 2147483648 \<le> r \<and> r \<le> 2147483647 then Inr \<lfloor>r\<rfloor>
          else Inl QueryError
      | _ \<Rightarrow> Inl QueryError)"

text \<open>
  \<open>ORDER BY\<close>. PostgreSQL sorts \<open>NULL\<close> as larger than every value, and among the
  double precision values \<open>NaN\<close> as the largest. The order of text is taken to be the
  order of the code units; the order among rows with equal keys, which SQL leaves
  open, is the one of a stable sort.
\<close>

definition float8_key :: "number \<Rightarrow> nat \<times> real" where
  "float8_key n =
     (case n of NegInfinity \<Rightarrow> (0, 0) | Fin r \<Rightarrow> (1, r) | PosInfinity \<Rightarrow> (2, 0) | NaN \<Rightarrow> (3, 0))"

definition nullable_key :: "('a \<Rightarrow> 'k) \<Rightarrow> 'k \<Rightarrow> 'a option \<Rightarrow> bool \<times> 'k" where
  "nullable_key key d v = (case v of None \<Rightarrow> (True, d) | Some x \<Rightarrow> (False, key x))"

definition asc :: "('r \<Rightarrow> 'k::linorder) \<Rightarrow> 'r list \<Rightarrow> 'r list" where
  "asc key rows = sort_key key rows"

definition desc :: "('r \<Rightarrow> 'k::linorder) \<Rightarrow> 'r list \<Rightarrow> 'r list" where
  "desc key rows = rev (sort_key key rows)"

section \<open>The card repository (server/storage.ts)\<close>

text \<open>The filter and sort request; an absent query parameter is \<open>None\<close>.\<close>

record params =
  search :: "string option"
  sport_f :: "string option"
  year_f :: "string option"
  brand_f :: "string option"
  condition_f :: "string option"
  sortBy :: "string option"

text \<open>\<open>params.x && params.x !== 'all'\<close>: the parameter is there, not empty and not \<open>all\<close>.\<close>

definition selective :: "string option \<Rightarrow> bool" where
  "selective v = (case v of None \<Rightarrow> False | Some s \<Rightarrow> s \<noteq> [] \<and> s \<noteq> ''all'')"

definition searchFilters :: "string option \<Rightarrow> (Card \<Rightarrow> bool) list" where
  "searchFilters v =
     (case v of
        None \<Rightarrow> []
      | Some s \<Rightarrow>
          if s = [] then []
          else
            (let searchTerm = ''%'' @ s @ ''%''
             in [\<lambda>c. like (Some (playerName c)) searchTerm
                     \<or> like (Some (brand c)) searchTerm
                     \<or> like (cardSet c) searchTerm
                     \<or> like (notes' c) searchTerm]))"

definition eqFilters :: "(Card \<Rightarrow> string) \<Rightarrow> string option \<Rightarrow> (Card \<Rightarrow> bool) list" where
  "eqFilters col v = (if selective v then [\<lambda>c. Some (col c) = v] else [])"

text \<open>
  The year filter. The last case of the range branch cannot arise: a string that
  includes the separator splits into two parts at least.
\<close>

definition yearFilters :: "string option \<Rightarrow> dberror + (Card \<Rightarrow> bool) list" where
  "yearFilters v =
     (if selective v then
        (let y = the v
         in if includes_str y ''-'' then
              (case map Number (split CHR ''-'' y) of
                 start # end' # _ \<Rightarrow>
                   (case (int4_param start, int4_param end') of
                      (Inr lo, Inr hi) \<Rightarrow> Inr [\<lambda>c. lo \<le> year c \<and> year c \<le> hi]
                    | _ \<Rightarrow> Inl QueryError)
               | _ \<Rightarrow> Inl QueryError)
            else
              (case int4_param (Number y) of
                 Inr n \<Rightarrow> Inr [\<lambda>c. year c = n]
               | Inl e \<Rightarrow> Inl e))
      else Inr [])"

definition orderBy :: "string option \<Rightarrow> Card list \<Rightarrow> Card list" where
  "orderBy v rows =
     (case v of
        None \<Rightarrow> desc Card.id' rows
      | Some s \<Rightarrow>
          if s = [] then desc Card.id' rows
          else if s = ''recent'' then desc (\<lambda>c. nullable_key (\<lambda>t. t) 0 (createdAt c)) rows
          else if s = ''playerNameAsc'' then asc playerName rows
          else if s = ''playerNameDesc'' then desc playerName rows
          else if s = ''valueDesc'' then
            desc (\<lambda>c. nullable_key float8_key (0, 0) (currentValue c)) rows
          else if s = ''valueAsc'' then
            asc (\<lambda>c. nullable_key float8_key (0, 0) (currentValue c)) rows
          else if s = ''yearDesc'' then desc year rows
          else if s = ''yearAsc'' then asc year rows
          else desc Card.id' rows)"

definition getFilteredCards :: "params \<Rightarrow> database \<Rightarrow> dberror + Card list" where
  "getFilteredCards p db =
     (case yearFilters (year_f p) of
        Inl e \<Rightarrow> Inl e
      | Inr yearF \<Rightarrow>
          (let filters = searchFilters (search p) @ eqFilters sport (sport_f p) @ yearF
                         @ eqFilters brand (brand_f p) @ eqFilters condition (condition_f p)
           in Inr (orderBy (sortBy p) (filter (\<lambda>c. list_all (\<lambda>f. f c) filters) (cards db)))))"

definition getAllCards :: "database \<Rightarrow> Card list" where
  "getAllCards db = desc Card.id' (cards db)"

text \<open>Count first, then delete: the count and the database after the call.\<close>

definition deleteAllCards :: "database \<Rightarrow> nat \<times> database" where
  "deleteAllCards db =
     (let allCards = map Card.id' (cards db);
          count = length allCards
      in (count, db\<lparr>cards := []\<rparr>))"

text \<open>The request without any filter.\<close>

definition noFilters :: params where
  "noFilters = \<lparr>search = None, sport_f = None, year_f = None, brand_f = None,
                condition_f = None, sortBy = None\<rparr>"

section \<open>The synthetic price estimator (priceService.ts)\<close>

text \<open>Printing an integer in decimal, as a template literal does.\<close>

function showNat :: "nat \<Rightarrow> string" where
  "showNat n = (if n < 10 then [char_of (48 + n)] else showNat (n div 10) @ [char_of (48 + n mod 10)])"
  by pat_completeness auto
termination
  by (relation "measure (\<lambda>n. n)") auto

declare showNat.simps [simp del]

definition showInt :: "int \<Rightarrow> string" where
  "showInt i = (if i < 0 then CHR ''-'' # showNat (nat (- i)) else showNat (nat i))"

text \<open>
  \<open>parseFloat(x.toFixed(2))\<close>: \<open>toFixed\<close> prints the nearest number with two decimals,
  a tie going away from zero, and \<open>parseFloat\<close> reads it back (numbers below \<open>10^21\<close>).
\<close>

definition toFixed2 :: "real \<Rightarrow> real" where
  "toFixed2 x =
     (if x < 0 then - (real_of_int \<lfloor>- x * 100 + 1 / 2\<rfloor> / 100)
      else real_of_int \<lfloor>x * 100 + 1 / 2\<rfloor> / 100)"

text \<open>An array read: \<open>None\<close> is \<open>undefined\<close>, the value out of range.\<close>

definition at_index :: "'a list \<Rightarrow> int \<Rightarrow> 'a option" where
  "at_index xs i = (if 0 \<le> i \<and> i < int (length xs) then Some (xs ! nat i) else None)"

text \<open>A string or \<open>undefined\<close> inside a template literal.\<close>

definition templ :: "string option \<Rightarrow> string" where
  "templ v = (case v of None \<Rightarrow> ''undefined'' | Some s \<Rightarrow> s)"

record EbaySoldItem =
  title :: string
  price :: real
  date :: "string option"
  link :: string
  imageUrl' :: string

record PriceAnalysis =
  items :: "EbaySoldItem list"
  averagePrice :: number
  minPrice :: number
  maxPrice :: number
  medianPrice :: number
  totalResults :: nat
  searchQuery :: string

text \<open>The seed: the sum of the character codes of the query.\<close>

definition seedOf :: "string \<Rightarrow> int" where
  "seedOf query = foldl (\<lambda>acc char. acc + int (charCode char)) 0 query"

text \<open>
  The closure \<open>random\<close> with the variable \<open>seed\<close> it captures made explicit: the value
  drawn, and the seed after the call.
\<close>

definition random :: "int \<Rightarrow> int \<Rightarrow> int \<Rightarrow> int \<times> int" where
  "random seed min' max' =
     (let x = sin (real_of_int seed) * 10000;
          r = x - real_of_int \<lfloor>x\<rfloor>
      in (\<lfloor>r * real_of_int (max' - min' + 1) + real_of_int min'\<rfloor>, seed + 1))"

text \<open>\<open>arr[random(0, arr.length - 1)]\<close>.\<close>

definition pick :: "'a list \<Rightarrow> int \<Rightarrow> 'a option \<times> int" where
  "pick arr seed =
     (let (i, seed1) = random seed 0 (int (length arr) - 1) in (at_index arr i, seed1))"

definition conditionTerms :: "string list" where
  "conditionTerms = [''Mint'', ''NM'', ''NM-MT'', ''VG-EX'', ''GD'']"

definition extraTerms :: "string list" where
  "extraTerms = [''Shipped in Top Loader'', ''w/ One Touch'', ''HOT!'', ''LOOK'']"

definition dates :: "string list" where
  "dates = [''May 1'', ''May 2'', ''May 3'', ''May 4'', ''May 5'', ''May 6'', ''May 7'']"

text \<open>The base price from the terms of the lower-cased query, before the perturbation.\<close>

definition termPrice :: "string \<Rightarrow> real" where
  "termPrice terms =
     (let b0 = 5;
          b1 = (if includes_str terms ''rookie'' \<or> includes_str terms ''rc'' then b0 + 20 else b0);
          b2 = (if includes_str terms ''autograph'' \<or> includes_str terms ''auto'' then b1 + 50 else b1);
          b3 = (if includes_str terms ''1st'' \<or> includes_str terms ''first edition'' then b2 + 30 else b2);
          b4 = (if includes_str terms ''refractor'' \<or> includes_str terms ''prizm'' then b3 + 15 else b3);
          b5 = (if includes_str terms ''patch'' \<or> includes_str terms ''jersey'' then b4 + 25 else b4);
          b6 = (if includes_str terms ''psa'' \<or> includes_str terms ''bgs'' then b5 + 40 else b5);
          b7 = (if includes_str terms ''parallel'' \<or> includes_str terms ''numbered'' then b6 + 20 else b6);
          b8 = (if includes_str terms ''ssp'' \<or> includes_str terms ''rare'' then b7 + 35 else b7)
      in b8)"

text \<open>One turn of the loop: the item pushed, and the seed after it.\<close>

definition genItem :: "string \<Rightarrow> real \<Rightarrow> int \<Rightarrow> EbaySoldItem \<times> int" where
  "genItem query basePrice seed =
     (let (v, seed1) = random seed (- 40) 40;
          priceVariance = basePrice * (real_of_int v / 100);
          itemPrice = basePrice + priceVariance;
          (cond, seed2) = pick conditionTerms seed1;
          (flag, seed3) = random seed2 0 1;
          (extra, seed4) = (if flag = 1 then pick extraTerms seed3 else (Some [], seed3));
          (day, seed5) = pick dates seed4;
          (linkId, seed6) = random seed5 100000000 999999999;
          (imageId, seed7) = random seed6 10000 99999
      in (\<lparr>title = trim (query @ '' - '' @ templ cond @ '' '' @ templ extra),
           price = toFixed2 itemPrice,
           date = day,
           link = ''https://www.ebay.com/itm/'' @ showInt linkId,
           imageUrl' = ''https://i.ebayimg.com/images/g/'' @ showInt imageId @ ''/s-l1600.jpg''\<rparr>,
          seed7))"

text \<open>The loop \<open>for (i = 0; i < itemCount; i++)\<close>, by the number of turns left.\<close>

fun genItems :: "nat \<Rightarrow> string \<Rightarrow> real \<Rightarrow> int \<Rightarrow> EbaySoldItem list" where
  "genItems 0 query basePrice seed = []"
| "genItems (Suc n) query basePrice seed =
     (let (item, seed1) = genItem query basePrice seed
      in item # genItems n query basePrice seed1)"

text \<open>The array \<open>items\<close> when the loop has ended.\<close>

definition generatedItems :: "string \<Rightarrow> EbaySoldItem list" where
  "generatedItems query =
     (let seed = seedOf query;
          terms = toLowerCase query;
          (p, seed1) = random seed (- 20) 20;
          basePrice = termPrice terms * (1 + real_of_int p / 100);
          (itemCount, seed2) = random seed1 5 15
      in genItems (nat itemCount) query basePrice seed2)"

text \<open>
  The statistics. On an empty array the source computes \<open>0 / 0\<close>, \<open>Math.min()\<close>,
  \<open>Math.max()\<close> and \<open>(undefined + undefined) / 2\<close>.
\<close>

definition average :: "real list \<Rightarrow> number" where
  "average prices =
     (if prices = [] then NaN
      else Fin (foldl (\<lambda>sum p. sum + p) 0 prices / real (length prices)))"

definition Math_min :: "real list \<Rightarrow> number" where
  "Math_min prices = (case prices of [] \<Rightarrow> PosInfinity | p # ps \<Rightarrow> Fin (fold min ps p))"

definition Math_max :: "real list \<Rightarrow> number" where
  "Math_max prices = (case prices of [] \<Rightarrow> NegInfinity | p # ps \<Rightarrow> Fin (fold max ps p))"

definition median :: "real list \<Rightarrow> number" where
  "median prices =
     (let sortedPrices = sort prices;
          middle = length sortedPrices div 2
      in if length sortedPrices mod 2 = 0 then
           (if sortedPrices = [] then NaN
            else Fin ((sortedPrices ! (middle - 1) + sortedPrices ! middle) / 2))
         else Fin (sortedPrices ! middle))"

text \<open>
  The console is the list of the lines logged so far, each with its source tag. No
  statement of the \<open>try\<close> block raises, so the \<open>catch\<close> block is not reached.
\<close>

type_synonym console = "(string \<times> string) list"

definition scrapeEbayPrices :: "string \<Rightarrow> console \<Rightarrow> PriceAnalysis \<times> console" where
  "scrapeEbayPrices query console =
     (let console1 = console @ [(''Generating price analysis for \"'' @ query @ ''\"'',
                                 ''price-service'')];
          allItems = generatedItems query;
          prices = map price allItems
      in (\<lparr>items = take 10 allItems,
           averagePrice = average prices,
           minPrice = Math_min prices,
           maxPrice = Math_max prices,
           medianPrice = median prices,
           totalResults = length allItems,
           searchQuery = query\<rparr>,
          console1))"

section \<open>Objects and conversions\<close>

text \<open>
  A plain object is the list of its own properties in insertion order. \<open>getProp\<close>
  reads an own property, \<open>undefined\<close> when it is absent; it is used where the name
  of the property is fixed in the source and is not the name of a member of
  \<open>Object.prototype\<close>.
\<close>

type_synonym obj = "(string \<times> jsval) list"

definition getProp :: "obj \<Rightarrow> string \<Rightarrow> jsval" where
  "getProp ob k = (case map_of ob k of None \<Rightarrow> JUndefined | Some v \<Rightarrow> v)"

definition setProp :: "string \<Rightarrow> jsval \<Rightarrow> obj \<Rightarrow> obj" where
  "setProp k v ob = AList.update k v ob"

text \<open>
  The members that every plain object inherits from \<open>Object.prototype\<close>: eleven
  functions, and the accessor \<open>__proto__\<close>, which answers with \<open>Object.prototype\<close>
  itself, an object written \<open>JObj []\<close> here.
\<close>

definition objectPrototype :: "string \<Rightarrow> jsval" where
  "objectPrototype k =
     (if k = ''__proto__'' then JObj []
      else if k = ''constructor'' then JFunction ''Object''
      else if k \<in> set [''__defineGetter__'', ''__defineSetter__'', ''hasOwnProperty'',
                         ''__lookupGetter__'', ''__lookupSetter__'', ''isPrototypeOf'',
                         ''propertyIsEnumerable'', ''toString'', ''valueOf'',
                         ''toLocaleString'']
      then JFunction k
      else JUndefined)"

fun join :: "string \<Rightarrow> string list \<Rightarrow> string" where
  "join sep [] = []"
| "join sep [x] = x"
| "join sep (x # y # ys) = x @ sep @ join sep (y # ys)"

text \<open>
  \<open>ToString\<close>. How a number prints depends on its shortest decimal that reads back as
  the same double, which a real does not determine: the printer of numbers is a
  parameter, \<open>shw\<close>.
\<close>

fun ToString :: "(number \<Rightarrow> string) \<Rightarrow> jsval \<Rightarrow> string" where
  "ToString shw JUndefined = ''undefined''"
| "ToString shw JNull = ''null''"
| "ToString shw (JBool b) = (if b then ''true'' else ''false'')"
| "ToString shw (JNum n) = shw n"
| "ToString shw (JStr s) = s"
| "ToString shw (JArr xs) =
     join '','' (map (\<lambda>x. if x = JUndefined \<or> x = JNull then [] else ToString shw x) xs)"
| "ToString shw (JObj kvs) = ''[object Object]''"
| "ToString shw (JFunction n) = ''function '' @ n @ ''() { [native code] }''"

text \<open>\<open>Number(v)\<close> on any value.\<close>

definition ToNumber :: "(number \<Rightarrow> string) \<Rightarrow> jsval \<Rightarrow> number" where
  "ToNumber shw v =
     (case v of
        JUndefined \<Rightarrow> NaN
      | JNull \<Rightarrow> Fin 0
      | JBool b \<Rightarrow> Fin (if b then 1 else 0)
      | JNum n \<Rightarrow> n
      | JStr s \<Rightarrow> Number s
      | _ \<Rightarrow> Number (ToString shw v))"

text \<open>
  \<open>parseInt(v, radix)\<close>; \<open>None\<close> is the call without a radix. White space at the start
  is skipped, a sign is read, \<open>0x\<close> announces base 16 when the radix allows it, and
  the digits of the base are read as far as they go.
\<close>

definition parseIntStr :: "nat option \<Rightarrow> string \<Rightarrow> number" where
  "parseIntStr radix s =
     (let S = dropWhile isWhiteSpace s;
          neg = (case S of [] \<Rightarrow> False | c # _ \<Rightarrow> c = CHR ''-'');
          S1 = (case S of [] \<Rightarrow> S
                | c # r \<Rightarrow> if c = CHR ''-'' \<or> c = CHR ''+'' then r else S);
          R0 = (case radix of None \<Rightarrow> 0 | Some r \<Rightarrow> r)
      in if R0 \<noteq> 0 \<and> (R0 < 2 \<or> 36 < R0) then NaN
         else
           (let hex = ((R0 = 0 \<or> R0 = 16) \<and> (prefix ''0x'' S1 \<or> prefix ''0X'' S1));
                S2 = (if hex then drop 2 S1 else S1);
                R = (if hex then 16 else if R0 = 0 then 10 else R0);
                Z = takeWhile (isDigitOfBase R) S2
            in if Z = [] then NaN
               else Fin (if neg then - real (baseValue R Z) else real (baseValue R Z))))"

definition parseInt :: "(number \<Rightarrow> string) \<Rightarrow> nat option \<Rightarrow> jsval \<Rightarrow> number" where
  "parseInt shw radix v = parseIntStr radix (ToString shw v)"

text \<open>\<open>parseFloat(v)\<close>: the longest decimal literal after the leading white space.\<close>

definition parseFloatStr :: "string \<Rightarrow> number" where
  "parseFloatStr s =
     (case signedDecimal (dropWhile isWhiteSpace s) of None \<Rightarrow> NaN | Some (v, _) \<Rightarrow> v)"

definition parseFloat :: "(number \<Rightarrow> string) \<Rightarrow> jsval \<Rightarrow> number" where
  "parseFloat shw v = parseFloatStr (ToString shw v)"

section \<open>Validation (insertCardSchema)\<close>

text \<open>
  The validators that \<open>createInsertSchema\<close> derives from the columns, and the ones
  that \<open>extend\<close> puts in their place. A validator answers with the parsed value or
  with an issue; the key of the property is the path of the issue.
\<close>

datatype issue = Required string | InvalidType string

text \<open>\<open>z.string()\<close>, for a \<open>text\<close> column that is \<open>notNull\<close> and has no default.\<close>

definition zString :: "string \<Rightarrow> jsval \<Rightarrow> issue + jsval" where
  "zString k v =
     (case v of JStr s \<Rightarrow> Inr v | JUndefined \<Rightarrow> Inl (Required k) | _ \<Rightarrow> Inl (InvalidType k))"

text \<open>
  \<open>z.number()\<close>: any number but \<open>NaN\<close>. It is also the validator taken for the
  \<open>integer\<close> column \<open>year\<close>; a year that is not an integer of 32 bits fails at the
  insert.
\<close>

definition zNumber :: "string \<Rightarrow> jsval \<Rightarrow> issue + jsval" where
  "zNumber k v =
     (case v of
        JNum n \<Rightarrow> if n = NaN then Inl (InvalidType k) else Inr v
      | JUndefined \<Rightarrow> Inl (Required k)
      | _ \<Rightarrow> Inl (InvalidType k))"

text \<open>\<open>inner.optional().default(d)\<close>.\<close>

definition zDefault ::
  "jsval \<Rightarrow> (string \<Rightarrow> jsval \<Rightarrow> issue + jsval) \<Rightarrow> string \<Rightarrow> jsval \<Rightarrow> issue + jsval" where
  "zDefault d inner k v = (if v = JUndefined then Inr d else inner k v)"

text \<open>\<open>z.coerce.number()\<close>: \<open>Number(v)\<close> first.\<close>

definition zCoerceNumber :: "(number \<Rightarrow> string) \<Rightarrow> string \<Rightarrow> jsval \<Rightarrow> issue + jsval" where
  "zCoerceNumber shw k v =
     (let n = ToNumber shw v in if n = NaN then Inl (InvalidType k) else Inr (JNum n))"

text \<open>\<open>z.number().optional().nullable()\<close>.\<close>

definition zOptionalNullableNumber :: "string \<Rightarrow> jsval \<Rightarrow> issue + jsval" where
  "zOptionalNullableNumber k v = (if v = JUndefined \<or> v = JNull then Inr v else zNumber k v)"

text \<open>
  The shape of \<open>insertCardSchema\<close>: the columns of \<open>cards\<close> without \<open>id\<close> and
  \<open>createdAt\<close>, each with its validator.
\<close>

definition insertCardSchema ::
  "(number \<Rightarrow> string) \<Rightarrow> (string \<times> (string \<Rightarrow> jsval \<Rightarrow> issue + jsval)) list" where
  "insertCardSchema shw =
     [(''playerName'', zString),
      (''sport'', zString),
      (''year'', zNumber),
      (''brand'', zString),
      (''cardSet'', zDefault (JStr []) zString),
      (''condition'', zString),
      (''purchasePrice'', zDefault (JNum (Fin 0)) (zCoerceNumber shw)),
      (''currentValue'', zDefault (JNum (Fin 0)) zNumber),
      (''notes'', zDefault (JStr []) zString),
      (''imageUrl'', zDefault (JStr []) zString),
      (''cardNumber'', zDefault (JStr []) zString),
      (''userId'', zOptionalNullableNumber)]"

text \<open>
  \<open>safeParse\<close> on an object: every property of the shape is validated, all issues are
  collected, and properties outside the shape are dropped.
\<close>

definition safeParse ::
  "(string \<times> (string \<Rightarrow> jsval \<Rightarrow> issue + jsval)) list \<Rightarrow> obj \<Rightarrow> issue list + obj" where
  "safeParse shape input =
     (let parsed = map (\<lambda>(k, validator). (k, validator k (getProp input k))) shape;
          issues = concat (map (\<lambda>(k, r). case r of Inl i \<Rightarrow> [i] | Inr _ \<Rightarrow> []) parsed)
      in if issues = [] then
           Inr (concat (map (\<lambda>(k, r). case r of Inl _ \<Rightarrow> []
                                       | Inr v \<Rightarrow> if v = JUndefined then [] else [(k, v)]) parsed))
         else Inl issues)"

section \<open>Creating a card (server/storage.ts)\<close>

text \<open>
  The values of an insert, each bound to its column; \<open>None\<close> when a value does not
  fit the type of its column, which makes the statement fail. An absent value takes
  the default of the column.
\<close>

definition textParam :: "jsval \<Rightarrow> string option" where
  "textParam v = (case v of JStr s \<Rightarrow> Some s | _ \<Rightarrow> None)"

definition nullableTextParam :: "jsval \<Rightarrow> string option option" where
  "nullableTextParam v =
     (case v of JStr s \<Rightarrow> Some (Some s) | JUndefined \<Rightarrow> Some (Some []) | JNull \<Rightarrow> Some None
      | _ \<Rightarrow> None)"

definition float8Param :: "jsval \<Rightarrow> number option option" where
  "float8Param v =
     (case v of JNum n \<Rightarrow> Some (Some n) | JUndefined \<Rightarrow> Some (Some (Fin 0)) | JNull \<Rightarrow> Some None
      | _ \<Rightarrow> None)"

definition integerParam :: "jsval \<Rightarrow> int option" where
  "integerParam v =
     (case v of
        JNum n \<Rightarrow> (case int4_param n of Inl _ \<Rightarrow> None | Inr i \<Rightarrow> Some i)
      | _ \<Rightarrow> None)"

definition nullableIntegerParam :: "jsval \<Rightarrow> int option option" where
  "nullableIntegerParam v =
     (if v = JUndefined \<or> v = JNull then Some None else map_option Some (integerParam v))"

definition rowOf :: "obj \<Rightarrow> int \<Rightarrow> nat \<Rightarrow> Card option" where
  "rowOf insertCard newId now =
     (case (textParam (getProp insertCard ''playerName''),
            textParam (getProp insertCard ''sport''),
            integerParam (getProp insertCard ''year''),
            textParam (getProp insertCard ''brand''),
            nullableTextParam (getProp insertCard ''cardSet''),
            textParam (getProp insertCard ''condition'')) of
        (Some pn, Some sp, Some yr, Some br, Some cs, Some cn) \<Rightarrow>
          (case (float8Param (getProp insertCard ''purchasePrice''),
                 float8Param (getProp insertCard ''currentValue''),
                 nullableTextParam (getProp insertCard ''notes''),
                 nullableTextParam (getProp insertCard ''imageUrl''),
                 nullableTextParam (getProp insertCard ''cardNumber''),
                 nullableIntegerParam (getProp insertCard ''userId'')) of
             (Some pp, Some cv, Some nt, Some iu, Some cnum, Some uid) \<Rightarrow>
               Some \<lparr>id' = newId, playerName = pn, sport = sp, year = yr, brand = br,
                     cardSet = cs, condition = cn, purchasePrice = pp, currentValue = cv,
                     notes' = nt, imageUrl = iu, cardNumber = cnum, userId = uid,
                     createdAt = Some now\<rparr>
           | _ \<Rightarrow> None)
      | _ \<Rightarrow> None)"

text \<open>
  \<open>createCard\<close>: the row returned, or the failure of the statement, and the database
  after the call. A row whose \<open>userId\<close> names no user violates the foreign key; the
  sequence has advanced by then.
\<close>

definition createCard :: "obj \<Rightarrow> database \<Rightarrow> (dberror + Card) \<times> database" where
  "createCard insertCard db =
     (case rowOf insertCard (nextId db) (clock db) of
        None \<Rightarrow> (Inl QueryError, db)
      | Some c \<Rightarrow>
          (case userId c of
             None \<Rightarrow> (Inr c, db\<lparr>cards := cards db @ [c], nextId := nextId db + 1\<rparr>)
           | Some u \<Rightarrow>
               if u \<in> set (map User.id' (users db))
               then (Inr c, db\<lparr>cards := cards db @ [c], nextId := nextId db + 1\<rparr>)
               else (Inl QueryError, db\<lparr>nextId := nextId db + 1\<rparr>)))"

section \<open>The import route (server/routes.ts)\<close>

text \<open>
  A row of the parsed file: a plain object, with \<open>Object.prototype\<close> as its
  prototype, whose own properties are the cells under their column headers. The CSV
  parser yields strings; the spreadsheet reader yields strings, numbers, booleans and
  \<open>null\<close>.
\<close>

datatype cell = CellStr string | CellNum number | CellBool bool | CellNull

fun ofCell :: "cell \<Rightarrow> jsval" where
  "ofCell (CellStr s) = JStr s"
| "ofCell (CellNum n) = JNum n"
| "ofCell (CellBool b) = JBool b"
| "ofCell CellNull = JNull"

type_synonym row = "(string \<times> cell) list"

text \<open>
  \<open>record[fileField]\<close>: the own property of that name, and when the row has none,
  the member of that name inherited from \<open>Object.prototype\<close>. The name \<open>__proto__\<close>
  is never an own property of a row: the parsers fill a row by assignment, and
  assigning a cell to \<open>__proto__\<close> creates no property.
\<close>

definition getMember :: "row \<Rightarrow> string \<Rightarrow> jsval" where
  "getMember r k =
     (if k = ''__proto__'' then objectPrototype k
      else case map_of r k of None \<Rightarrow> objectPrototype k | Some c \<Rightarrow> ofCell c)"

text \<open>
  \<open>mappedRecord[cardField] = v\<close>. Under the name \<open>__proto__\<close> the assignment creates
  no property. It is ignored when \<open>v\<close> is a string, a number or a boolean; when \<open>v\<close>
  is \<open>null\<close> or an inherited member it replaces the prototype of the record, and the
  new prototype has no property of a name that the handler or the validation reads
  later, so the record reads as before.
\<close>

definition assign :: "string \<Rightarrow> jsval \<Rightarrow> obj \<Rightarrow> obj" where
  "assign k v ob = (if k = ''__proto__'' then ob else setProp k v ob)"

text \<open>
  The first loop of the handler: the candidate record of a row under the column
  mapping, the entries of the mapping in their order.
\<close>

definition mapFields :: "(string \<times> string) list \<Rightarrow> row \<Rightarrow> obj" where
  "mapFields mappedColumns r =
     foldl (\<lambda>mappedRecord (cardField, fileField).
              if fileField \<noteq> [] \<and> fileField \<noteq> ''none'' \<and> getMember r fileField \<noteq> JUndefined
              then assign cardField (getMember r fileField) mappedRecord
              else mappedRecord)
       [] mappedColumns"

text \<open>The conversion of the numerical values.\<close>

definition convertNumbers :: "(number \<Rightarrow> string) \<Rightarrow> obj \<Rightarrow> obj" where
  "convertNumbers shw mappedRecord =
     (let m1 = (if truthy (getProp mappedRecord ''year'')
                then setProp ''year'' (JNum (parseInt shw None (getProp mappedRecord ''year'')))
                       mappedRecord
                else mappedRecord);
          m2 = (if truthy (getProp m1 ''purchasePrice'')
                then setProp ''purchasePrice''
                       (JNum (parseFloat shw (getProp m1 ''purchasePrice''))) m1
                else m1);
          m3 = (if truthy (getProp m2 ''currentValue'')
                then setProp ''currentValue''
                       (JNum (parseFloat shw (getProp m2 ''currentValue''))) m2
                else m2)
      in m3)"

definition mapRecord :: "(number \<Rightarrow> string) \<Rightarrow> (string \<times> string) list \<Rightarrow> row \<Rightarrow> obj" where
  "mapRecord shw mappedColumns r = convertNumbers shw (mapFields mappedColumns r)"

text \<open>
  The outcome of one record. A failure carries what the error text is made of: the
  player name of the record or \<open>Unknown\<close>, and for a validation error its issues.
\<close>

datatype import_error = ValidationError jsval "issue list" | ProcessingError jsval

datatype import_result = Imported Card | Rejected import_error obj

fun success :: "import_result \<Rightarrow> bool" where
  "success (Imported c) = True"
| "success (Rejected e d) = False"

definition processRecord ::
  "(number \<Rightarrow> string) \<Rightarrow> obj \<Rightarrow> database \<Rightarrow> import_result \<times> database" where
  "processRecord shw candidate db =
     (let label = or_else (getProp candidate ''playerName'') (JStr ''Unknown'')
      in case safeParse (insertCardSchema shw) candidate of
           Inl issues \<Rightarrow> (Rejected (ValidationError label issues) candidate, db)
         | Inr validated \<Rightarrow>
             (case createCard validated db of
                (Inr c, db1) \<Rightarrow> (Imported c, db1)
              | (Inl e, db1) \<Rightarrow> (Rejected (ProcessingError label) candidate, db1)))"

text \<open>
  \<open>Promise.all\<close> over the records. Each callback runs up to its insert when it is
  started, and the callbacks are started in the order of the records; the model
  lets the inserts reach the database in that order. The results are in the order of
  the records.
\<close>

fun processRecords ::
  "(number \<Rightarrow> string) \<Rightarrow> obj list \<Rightarrow> database \<Rightarrow> import_result list \<times> database" where
  "processRecords shw [] db = ([], db)"
| "processRecords shw (r # rs) db =
     (let (res, db1) = processRecord shw r db;
          (ress, db2) = processRecords shw rs db1
      in (res # ress, db2))"

record import_response =
  message :: string
  results :: "import_result list"

text \<open>The handler from the parsed rows and the parsed column mapping on.\<close>

definition importCards ::
  "(number \<Rightarrow> string) \<Rightarrow> (string \<times> string) list \<Rightarrow> row list \<Rightarrow> database
     \<Rightarrow> import_response \<times> database" where
  "importCards shw mappedColumns records db =
     (let cardRecords = map (mapRecord shw mappedColumns) records;
          (rs, db1) = processRecords shw cardRecords db;
          successful = length (filter success rs);
          failed = length (filter (\<lambda>r. \<not> success r) rs)
      in (\<lparr>message = ''Import completed: '' @ showNat successful @ '' cards imported, ''
                      @ showNat failed @ '' failed'',
           results = rs\<rparr>,
          db1))"

text \<open>
  The whole handler. The upload is absent or carries the outcome of parsing the
  column mapping and the outcome of parsing the file, \<open>None\<close> when the parser raised.
\<close>

datatype import_reply = Status400 string | Status500 string | Status200 import_response

definition importRoute ::
  "(number \<Rightarrow> string) \<Rightarrow> ((string \<times> string) list option \<times> row list option) option
     \<Rightarrow> database \<Rightarrow> import_reply \<times> database" where
  "importRoute shw upload db =
     (case upload of
        None \<Rightarrow> (Status400 ''No file uploaded'', db)
      | Some (columnMap, parsedFile) \<Rightarrow>
          (case columnMap of
             None \<Rightarrow> (Status400 ''Invalid column mapping'', db)
           | Some mappedColumns \<Rightarrow>
               (case parsedFile of
                  None \<Rightarrow> (Status500 ''Failed to import cards'', db)
                | Some records \<Rightarrow>
                    (let (response, db1) = importCards shw mappedColumns records db
                     in (Status200 response, db1)))))"

section \<open>The card attribute recognizer (imageRecognitionService.ts)\<close>

text \<open>
  What the service takes from its surroundings: the answer of the vision model to
  an image (media type and data) and to a text prompt, each the content blocks of the
  message or the message of the error raised; \<open>JSON.parse\<close>, \<open>None\<close> when it raises;
  the current year; and the printer of numbers.
\<close>

datatype content_block = TextBlock string | OtherBlock

record env =
  image_message :: "string \<Rightarrow> string \<Rightarrow> string option + content_block list"
  text_message :: "string \<Rightarrow> string option + content_block list"
  JSON_parse :: "string \<Rightarrow> jsval option"
  getFullYear :: int
  numberToString :: "number \<Rightarrow> string"

text \<open>What the \<open>try\<close> block can raise.\<close>

datatype exn = ApiError "string option" | TypeError | SyntaxError | NoJsonInResponse

text \<open>
  The \<open>error\<close> of a result: the two texts the function writes itself, and the text it
  derives from an exception.
\<close>

datatype recognize_error = NoImageData | NoPlayerName | ErrorIdentifying exn

record recognition =
  success' :: bool
  card :: "obj option"
  error :: "recognize_error option"

definition getValidMediaType :: "string \<Rightarrow> string" where
  "getValidMediaType contentType =
     (let loweredType = toLowerCase contentType
      in if includes_str loweredType ''jpeg'' \<or> includes_str loweredType ''jpg'' then ''image/jpeg''
         else if includes_str loweredType ''png'' then ''image/png''
         else if includes_str loweredType ''gif'' then ''image/gif''
         else if includes_str loweredType ''webp'' then ''image/webp''
         else ''image/jpeg'')"

text \<open>
  The match of \<open>/\{[\s\S]*\}/\<close>: from the first opening brace to the last closing brace
  after it.
\<close>

definition jsonMatch :: "string \<Rightarrow> string option" where
  "jsonMatch s =
     (let fromBrace = dropWhile (\<lambda>c. c \<noteq> CHR 0x7B) s;
          m = rev (dropWhile (\<lambda>c. c \<noteq> CHR 0x7D) (rev fromBrace))
      in if m = [] then None else Some m)"

definition extractJson :: "env \<Rightarrow> string \<Rightarrow> exn + jsval" where
  "extractJson e textContent =
     (case JSON_parse e textContent of
        Some v \<Rightarrow> Inr v
      | None \<Rightarrow>
          (case jsonMatch textContent of
             Some m \<Rightarrow> (case JSON_parse e m of Some v \<Rightarrow> Inr v | None \<Rightarrow> Inl SyntaxError)
           | None \<Rightarrow> Inl NoJsonInResponse))"

text \<open>
  \<open>cardData.k\<close>: reading a property of \<open>null\<close> raises; a value that is not an object
  has none of the properties read here.
\<close>

definition readProp :: "jsval \<Rightarrow> string \<Rightarrow> exn + jsval" where
  "readProp v k =
     (case v of
        JUndefined \<Rightarrow> Inl TypeError
      | JNull \<Rightarrow> Inl TypeError
      | JObj kvs \<Rightarrow> Inr (getProp kvs k)
      | _ \<Rightarrow> Inr JUndefined)"

text \<open>
  \<open>v?.toLowerCase() || d\<close>: \<open>undefined\<close> and \<open>null\<close> fall through to the default, a
  string is lower-cased, and any other value has no method \<open>toLowerCase\<close>, so the call
  raises.
\<close>

definition lowerOr :: "jsval \<Rightarrow> string \<Rightarrow> exn + jsval" where
  "lowerOr v d =
     (case v of
        JUndefined \<Rightarrow> Inr (JStr d)
      | JNull \<Rightarrow> Inr (JStr d)
      | JStr s \<Rightarrow> Inr (or_else (JStr (toLowerCase s)) (JStr d))
      | _ \<Rightarrow> Inl TypeError)"

text \<open>The transformation to the format of an insert.\<close>

definition toCard :: "env \<Rightarrow> jsval \<Rightarrow> exn + obj" where
  "toCard e cardData =
     (case readProp cardData ''playerName'' of
        Inl x \<Rightarrow> Inl x
      | Inr playerName0 \<Rightarrow>
          (let sport0 = getProp (case cardData of JObj kvs \<Rightarrow> kvs | _ \<Rightarrow> []) ''sport'';
               year0 = getProp (case cardData of JObj kvs \<Rightarrow> kvs | _ \<Rightarrow> []) ''year'';
               brand0 = getProp (case cardData of JObj kvs \<Rightarrow> kvs | _ \<Rightarrow> []) ''brand'';
               cardSet0 = getProp (case cardData of JObj kvs \<Rightarrow> kvs | _ \<Rightarrow> []) ''cardSet'';
               cardNumber0 = getProp (case cardData of JObj kvs \<Rightarrow> kvs | _ \<Rightarrow> []) ''cardNumber'';
               condition0 = getProp (case cardData of JObj kvs \<Rightarrow> kvs | _ \<Rightarrow> []) ''condition''
           in case lowerOr sport0 ''other'' of
                Inl x \<Rightarrow> Inl x
              | Inr sport1 \<Rightarrow>
                  (case lowerOr condition0 ''new'' of
                     Inl x \<Rightarrow> Inl x
                   | Inr condition1 \<Rightarrow>
                       Inr [(''playerName'', or_else playerName0 (JStr [])),
                            (''sport'', sport1),
                            (''year'', JNum (if truthy year0
                                             then parseInt (numberToString e) (Some 10) year0
                                             else Fin (real_of_int (getFullYear e)))),
                            (''brand'', or_else brand0 (JStr [])),
                            (''cardSet'', or_else cardSet0 (JStr [])),
                            (''cardNumber'', or_else cardNumber0 (JStr [])),
                            (''condition'', condition1),
                            (''purchasePrice'', JNum (Fin 0)),
                            (''notes'',
                               JStr (trim (ToString (numberToString e) (or_else cardSet0 (JStr []))
                                           @ '' ''
                                           @ ToString (numberToString e)
                                               (or_else cardNumber0 (JStr []))))),
                            (''imageUrl'', JStr [])])))"

definition identifyCardFromImage :: "env \<Rightarrow> string \<Rightarrow> string \<Rightarrow> recognition" where
  "identifyCardFromImage e base64Image contentType =
     (if base64Image = [] then \<lparr>success' = False, card = None, error = Some NoImageData\<rparr>
      else
        (let outcome =
               (case image_message e (getValidMediaType contentType) base64Image of
                  Inl msg \<Rightarrow> Inl (ApiError msg)
                | Inr content \<Rightarrow>
                    (case content of
                       [] \<Rightarrow> Inl TypeError
                     | block # _ \<Rightarrow>
                         (let textContent = (case block of TextBlock t \<Rightarrow> t | OtherBlock \<Rightarrow> ''{}'')
                          in case extractJson e textContent of
                               Inl x \<Rightarrow> Inl x
                             | Inr cardData \<Rightarrow> toCard e cardData)))
         in case outcome of
              Inl x \<Rightarrow> \<lparr>success' = False, card = None, error = Some (ErrorIdentifying x)\<rparr>
            | Inr c \<Rightarrow>
                if \<not> truthy (getProp c ''playerName'')
                then \<lparr>success' = False, card = Some c, error = Some NoPlayerName\<rparr>
                else \<lparr>success' = True, card = Some c, error = None\<rparr>))"

text \<open>
  \<open>generateCardDescription\<close>: the trimmed text of the answer, and the empty string
  when anything raises.
\<close>

definition descriptionPrompt :: "env \<Rightarrow> obj \<Rightarrow> string" where
  "descriptionPrompt e c =
     ''Generate a brief, professional description for this trading card:'' @ [CHR 0x0A]
     @ ''Player: '' @ ToString (numberToString e) (getProp c ''playerName'') @ [CHR 0x0A]
     @ ''Sport: '' @ ToString (numberToString e) (getProp c ''sport'') @ [CHR 0x0A]
     @ ''Year: '' @ ToString (numberToString e) (getProp c ''year'') @ [CHR 0x0A]
     @ ''Brand: '' @ ToString (numberToString e) (getProp c ''brand'') @ [CHR 0x0A]
     @ ''Set: '' @ ToString (numberToString e) (or_else (getProp c ''cardSet'') (JStr ''Unknown''))
     @ [CHR 0x0A]
     @ ''Card Number: ''
     @ ToString (numberToString e) (or_else (getProp c ''cardNumber'') (JStr ''Unknown''))
     @ [CHR 0x0A, CHR 0x0A]
     @ ''Please keep it factual and focused on what makes this card noteworthy.''"

definition generateCardDescription :: "env \<Rightarrow> obj \<Rightarrow> string" where
  "generateCardDescription e c =
     (case text_message e (descriptionPrompt e c) of
        Inl msg \<Rightarrow> []
      | Inr content \<Rightarrow>
          (case content of
             [] \<Rightarrow> []
           | block # _ \<Rightarrow> trim (case block of TextBlock t \<Rightarrow> t | OtherBlock \<Rightarrow> [])))"

text \<open>
  The route \<open>POST /api/recognize-card\<close>, from the image in base 64 on; \<open>None\<close> is the
  request without a file. Status 422 carries the error and the partial data.
\<close>

datatype recognize_reply =
    NoImageUploaded
  | Unprocessable "recognize_error option" "obj option"
  | Recognized "obj option"

definition recognizeRoute :: "env \<Rightarrow> (string \<times> string) option \<Rightarrow> recognize_reply" where
  "recognizeRoute e file =
     (case file of
        None \<Rightarrow> NoImageUploaded
      | Some (base64Image, mimetype) \<Rightarrow>
          (let result = identifyCardFromImage e base64Image mimetype
           in if \<not> success' result then Unprocessable (error result) (card result)
              else
                (case card result of
                   None \<Rightarrow> Recognized None
                 | Some c \<Rightarrow>
                     if truthy (getProp c ''playerName'') \<and> truthy (getProp c ''sport'')
                        \<and> truthy (getProp c ''year'')
                     then
                       (let description = generateCardDescription e c
                        in if description \<noteq> [] then
                             Recognized (Some (setProp ''notes'' (JStr description) c))
                           else Recognized (Some c))
                     else Recognized (Some c))))"

section \<open>Notions of the specification and example data\<close>

text \<open>
  A search string without a character that \<open>LIKE\<close> reads as a wildcard or as the
  escape character.
\<close>

definition literal :: "string \<Rightarrow> bool" where
  "literal s = list_all (\<lambda>c. c \<noteq> CHR ''%'' \<and> c \<noteq> CHR ''_'' \<and> c \<noteq> CHR 0x5C) s"

text \<open>The string occurs, as it is written, in a column that may be \<open>NULL\<close>.\<close>

definition occurs_in :: "string \<Rightarrow> string option \<Rightarrow> bool" where
  "occurs_in s col = (case col of None \<Rightarrow> False | Some t \<Rightarrow> sublist s t)"

text \<open>The string occurs in the column when case is ignored, as the specification words it.\<close>

definition occurs_ignoring_case :: "string \<Rightarrow> string option \<Rightarrow> bool" where
  "occurs_ignoring_case s col =
     (case col of None \<Rightarrow> False | Some t \<Rightarrow> sublist (toLowerCase s) (toLowerCase t))"

definition search_spec :: "string \<Rightarrow> Card \<Rightarrow> bool" where
  "search_spec s c =
     (occurs_ignoring_case s (Some (playerName c)) \<or> occurs_ignoring_case s (Some (brand c))
      \<or> occurs_ignoring_case s (cardSet c) \<or> occurs_ignoring_case s (notes' c))"

text \<open>
  The median as the specification words it: on the sorted prices, the mean of the two
  middle values for an even count, the middle value for an odd count.
\<close>

definition median_spec :: "real list \<Rightarrow> real" where
  "median_spec prices =
     (let s = sort prices; n = length prices
      in if even n then (s ! (n div 2 - 1) + s ! (n div 2)) / 2 else s ! (n div 2))"

text \<open>Two cards, and a database that holds them.\<close>

definition ruthCard :: Card where
  "ruthCard = \<lparr>id' = 1, playerName = ''Babe Ruth'', sport = ''baseball'', year = 1933,
     brand = ''Goudey'', cardSet = Some [], condition = ''psa7'',
     purchasePrice = Some (Fin 0), currentValue = Some (Fin 0), notes' = Some [],
     imageUrl = Some [], cardNumber = Some [], userId = None, createdAt = Some 0\<rparr>"

definition toppsCard :: Card where
  "toppsCard = \<lparr>id' = 2, playerName = ''Mike Trout'', sport = ''baseball'', year = 2011,
     brand = ''Topps'', cardSet = Some ''Update'', condition = ''raw'',
     purchasePrice = Some (Fin 0), currentValue = Some (Fin 0), notes' = Some [],
     imageUrl = Some [], cardNumber = Some ''US175'', userId = None, createdAt = Some 1\<rparr>"

definition twoCardsDb :: database where
  "twoCardsDb = \<lparr>users = [], cards = [ruthCard, toppsCard], nextId = 3, clock = 2\<rparr>"

text \<open>
  The column mapping assigns no cell of the row to a card field: every entry for the
  field names no column, the column \<open>none\<close>, or a column that the row does not
  have.
\<close>

definition no_cell :: "string \<Rightarrow> (string \<times> string) list \<Rightarrow> row \<Rightarrow> bool" where
  "no_cell field mappedColumns r =
     list_all (\<lambda>(cardField, fileField).
                 cardField \<noteq> field \<or> fileField = [] \<or> fileField = ''none''
                 \<or> map_of r fileField = None)
       mappedColumns"

text \<open>
  The column mapping gives the row no value at all for a card field: the names of
  absent columns are not names of inherited members either.
\<close>

definition unmapped :: "string \<Rightarrow> (string \<times> string) list \<Rightarrow> row \<Rightarrow> bool" where
  "unmapped field mappedColumns r =
     list_all (\<lambda>(cardField, fileField).
                 cardField \<noteq> field \<or> fileField = [] \<or> fileField = ''none''
                 \<or> getMember r fileField = JUndefined)
       mappedColumns"

text \<open>A value that is a member inherited from \<open>Object.prototype\<close>.\<close>

definition inherited_value :: "jsval \<Rightarrow> bool" where
  "inherited_value v = (case v of JFunction n \<Rightarrow> True | JObj kvs \<Rightarrow> kvs = [] | _ \<Rightarrow> False)"

text \<open>
  A printer of numbers for the examples; it is the printer of JavaScript on the
  integers below \<open>10^21\<close> and on the values that are not finite.
\<close>

definition printNumber :: "number \<Rightarrow> string" where
  "printNumber n =
     (case n of Fin r \<Rightarrow> showInt \<lfloor>r\<rfloor> | PosInfinity \<Rightarrow> ''Infinity''
      | NegInfinity \<Rightarrow> ''-Infinity'' | NaN \<Rightarrow> ''NaN'')"

text \<open>An empty database, a row of a file, and a column mapping without the sport.\<close>

definition emptyDb :: database where
  "emptyDb = \<lparr>users = [], cards = [], nextId = 1, clock = 0\<rparr>"

definition troutRow :: row where
  "troutRow = [(''Player'', CellStr ''Mike Trout''), (''Year'', CellStr ''2011''),
               (''Brand'', CellStr ''Topps''), (''Condition'', CellStr ''raw'')]"

definition noSportMapping :: "(string \<times> string) list" where
  "noSportMapping = [(''playerName'', ''Player''), (''sport'', ''none''), (''year'', ''Year''),
                     (''brand'', ''Brand''), (''condition'', ''Condition'')]"

text \<open>A row with a sport column, and a column mapping that reads it.\<close>

definition ruthRow :: row where
  "ruthRow = [(''Player'', CellStr ''Babe Ruth''), (''Sport'', CellStr ''baseball''),
              (''Year'', CellStr ''1933''), (''Brand'', CellStr ''Goudey''),
              (''Condition'', CellStr ''psa7'')]"

definition sportMapping :: "(string \<times> string) list" where
  "sportMapping = [(''playerName'', ''Player''), (''sport'', ''Sport''), (''year'', ''Year''),
                   (''brand'', ''Brand''), (''condition'', ''Condition'')]"

text \<open>The candidate record of the row without sport.\<close>

definition troutCandidate :: obj where
  "troutCandidate = [(''playerName'', JStr ''Mike Trout''), (''year'', JNum (Fin 2011)),
                     (''brand'', JStr ''Topps''), (''condition'', JStr ''raw'')]"

text \<open>
  Surroundings in which the vision model answers with a brand and no player name;
  \<open>JSON.parse\<close> is given on that answer alone.
\<close>

definition brandOnlyAnswer :: string where
  "brandOnlyAnswer = ''{\"brand\": \"Topps\"}''"

definition brandOnlyEnv :: env where
  "brandOnlyEnv =
     \<lparr>image_message = (\<lambda>mediaType data. Inr [TextBlock brandOnlyAnswer]),
      text_message = (\<lambda>prompt. Inl None),
      JSON_parse = (\<lambda>s. if s = brandOnlyAnswer then Some (JObj [(''brand'', JStr ''Topps'')])
                         else None),
      getFullYear = 2025,
      numberToString = printNumber\<rparr>"

definition brandOnlyCard :: obj where
  "brandOnlyCard =
     [(''playerName'', JStr []), (''sport'', JStr ''other''), (''year'', JNum (Fin 2025)),
      (''brand'', JStr ''Topps''), (''cardSet'', JStr []), (''cardNumber'', JStr []),
      (''condition'', JStr ''new''), (''purchasePrice'', JNum (Fin 0)), (''notes'', JStr []),
      (''imageUrl'', JStr [])]"

text \<open>A column mapping that names an inherited member as the column of the sport.\<close>

definition inheritedMapping :: "(string \<times> string) list" where
  "inheritedMapping = [(''playerName'', ''Player''), (''sport'', ''toString''),
                       (''year'', ''Year''), (''brand'', ''Brand''),
                       (''condition'', ''Condition'')]"

text \<open>What an item holds besides its title: the price, the date, the link and the image.\<close>

definition numbers_of :: "EbaySoldItem \<Rightarrow> real \<times> string option \<times> string \<times> string" where
  "numbers_of it = (price it, date it, link it, imageUrl' it)"

section \<open>The card repository: proofs\<close>

subsection \<open>Ordering and pattern matching\<close>

lemma mset_orderBy: "mset (orderBy v rows) = mset rows"
  by (simp add: orderBy_def asc_def desc_def split: option.splits)

lemma like_percent_all: "like_match ''%'' t"
  by (induction t) auto

lemma like_percent: "like_match (CHR ''%'' # ps) t \<longleftrightarrow> (\<exists>u r. t = u @ r \<and> like_match ps r)"
proof (induction t)
  case Nil
  then show ?case by simp
next
  case (Cons c cs)
  show ?case
  proof
    assume "like_match (CHR ''%'' # ps) (c # cs)"
    then have "like_match ps (c # cs) \<or> like_match (CHR ''%'' # ps) cs" by simp
    then consider "like_match ps (c # cs)" | "like_match (CHR ''%'' # ps) cs" by blast
    then show "\<exists>u r. c # cs = u @ r \<and> like_match ps r"
    proof cases
      case 1
      then show ?thesis by (rule_tac x = "[]" in exI) simp
    next
      case 2
      with Cons.IH obtain u r where "cs = u @ r" "like_match ps r" by auto
      then show ?thesis by (rule_tac x = "c # u" in exI, rule_tac x = r in exI) simp
    qed
  next
    assume "\<exists>u r. c # cs = u @ r \<and> like_match ps r"
    then obtain u r where ur: "c # cs = u @ r" "like_match ps r" by auto
    show "like_match (CHR ''%'' # ps) (c # cs)"
    proof (cases u)
      case Nil
      with ur show ?thesis by simp
    next
      case (Cons a u')
      with ur have "cs = u' @ r" by simp
      with ur Cons.IH have "like_match (CHR ''%'' # ps) cs" by auto
      then show ?thesis by simp
    qed
  qed
qed

lemma like_literal: "literal s \<Longrightarrow> like_match (s @ ps) t \<longleftrightarrow> (\<exists>r. t = s @ r \<and> like_match ps r)"
proof (induction s arbitrary: t)
  case Nil
  then show ?case by simp
next
  case (Cons a s)
  then have a: "a \<noteq> CHR ''%''" "a \<noteq> CHR ''_''" "a \<noteq> CHR 0x5C" and s: "literal s"
    by (simp_all add: literal_def)
  show ?case
  proof (cases t)
    case Nil
    with a show ?thesis by simp
  next
    case (Cons c cs)
    with a Cons.IH[OF s, of cs] show ?thesis by auto
  qed
qed

lemma like_search: "literal s \<Longrightarrow> like_match (''%'' @ s @ ''%'') t \<longleftrightarrow> sublist s t"
  using like_percent[of "s @ ''%''" t] like_literal[of s "''%''"] like_percent_all
  by (auto simp: sublist_def)

subsection \<open>Strings of decimal digits\<close>

lemma digit_not_space: "isDigit c \<Longrightarrow> \<not> isWhiteSpace c"
  by (auto simp: isDigit_def isWhiteSpace_def)

lemma dropWhile_space_digits: "list_all isDigit s \<Longrightarrow> dropWhile isWhiteSpace s = s"
  by (cases s) (auto simp: digit_not_space)

lemma trim_digits: "list_all isDigit s \<Longrightarrow> trim s = s"
proof -
  assume d: "list_all isDigit s"
  then have "list_all isDigit (rev s)" by (simp add: list_all_iff)
  then have "dropWhile isWhiteSpace (rev s) = rev s" by (rule dropWhile_space_digits)
  with d show ?thesis by (simp add: trim_def dropWhile_space_digits)
qed

lemma takeWhile_digits: "list_all isDigit s \<Longrightarrow> takeWhile isDigit s = s"
  by (simp add: list_all_iff)

lemma dropWhile_digits: "list_all isDigit s \<Longrightarrow> dropWhile isDigit s = []"
  by (simp add: list_all_iff)

lemma basePrefix_digits: "list_all isDigit s \<Longrightarrow> basePrefix s = None"
  by (auto simp: basePrefix_def isDigit_def charCode_def split: list.splits)

lemma unsignedDecimal_digits:
  "list_all isDigit s \<Longrightarrow> s \<noteq> [] \<Longrightarrow> unsignedDecimal s = Some (real (decimalValue s), [])"
  by (simp add: unsignedDecimal_def takeWhile_digits dropWhile_digits exponentPart_def decimalValue_def)

lemma signedDecimal_digits:
  "list_all isDigit s \<Longrightarrow> s \<noteq> [] \<Longrightarrow> signedDecimal s = Some (Fin (real (decimalValue s)), [])"
proof -
  assume d: "list_all isDigit s" and n: "s \<noteq> []"
  then obtain c r where s: "s = c # r" by (cases s) auto
  with d have c: "isDigit c" by simp
  then have c': "c \<noteq> CHR ''-''" "c \<noteq> CHR ''+''" "c \<noteq> CHR ''I''"
    by (auto simp: isDigit_def charCode_def)
  then have "\<not> prefix ''Infinity'' s" using s by simp
  with c' s show ?thesis
    using unsignedDecimal_digits[OF d n] by (simp add: signedDecimal_def)
qed

lemma Number_digits:
  "list_all isDigit s \<Longrightarrow> s \<noteq> [] \<Longrightarrow> Number s = Fin (real (decimalValue s))"
  by (simp add: Number_def trim_digits basePrefix_digits signedDecimal_digits)

lemma int4_param_nat:
  "n \<le> 2147483647 \<Longrightarrow> int4_param (Fin (real n)) = Inr (int n)"
  by (simp add: int4_param_def)

lemma split_no_sep: "sep \<notin> set a \<Longrightarrow> split sep a = [a]"
  by (induction a) auto

lemma split_at_sep: "sep \<notin> set a \<Longrightarrow> split sep (a @ sep # b) = a # split sep b"
  by (induction a) auto

lemma includes_char: "includes_str y [c] \<longleftrightarrow> c \<in> set y"
  by (auto simp: includes_str_def sublist_def in_set_conv_decomp)

lemma dash_not_digit: "list_all isDigit s \<Longrightarrow> CHR ''-'' \<notin> set s"
  by (auto simp: list_all_iff isDigit_def charCode_def)

lemma digits_not_all: "list_all isDigit s \<Longrightarrow> s \<noteq> ''all''"
  by (auto simp: isDigit_def charCode_def)

subsection \<open>The filters\<close>

lemma like_occurs: "literal s \<Longrightarrow> like col (''%'' @ s @ ''%'') = occurs_in s col"
  using like_search[of s] by (simp add: like_def occurs_in_def split: option.splits)

lemma yearFilters_range:
  assumes "list_all isDigit a" "a \<noteq> []" "decimalValue a \<le> 2147483647"
    and "list_all isDigit b" "b \<noteq> []" "decimalValue b \<le> 2147483647"
  shows "yearFilters (Some (a @ ''-'' @ b)) =
           Inr [\<lambda>c. int (decimalValue a) \<le> year c \<and> year c \<le> int (decimalValue b)]"
proof -
  let ?y = "a @ ''-'' @ b"
  have sel: "selective (Some ?y)"
    using assms(2) by (auto simp: selective_def append_eq_Cons_conv)
  have inc: "includes_str ?y ''-''" by (simp add: includes_char)
  have sp: "split CHR ''-'' ?y = [a, b]"
    using split_at_sep[OF dash_not_digit[OF assms(1)], of b] split_no_sep[OF dash_not_digit[OF assms(4)]]
    by simp
  show ?thesis
    unfolding yearFilters_def
    using sel inc sp assms by (simp add: Number_digits int4_param_nat)
qed

lemma yearFilters_exact:
  assumes "list_all isDigit a" "a \<noteq> []" "decimalValue a \<le> 2147483647"
  shows "yearFilters (Some a) = Inr [\<lambda>c. year c = int (decimalValue a)]"
proof -
  have sel: "selective (Some a)"
    using assms by (simp add: selective_def digits_not_all)
  have inc: "\<not> includes_str a ''-''" using assms(1) by (simp add: includes_char dash_not_digit)
  show ?thesis
    unfolding yearFilters_def
    using sel inc assms by (simp add: Number_digits int4_param_nat)
qed

subsection \<open>Two queries evaluated\<close>

lemma decimalValue_years: "decimalValue ''2010'' = 2010" "decimalValue ''2019'' = 2019"
  by (simp_all add: decimalValue_def digitVal_def charCode_def)

lemma digits_years:
  "list_all isDigit ''2010''" "''2010'' \<noteq> []" "decimalValue ''2010'' \<le> 2147483647"
  "list_all isDigit ''2019''" "''2019'' \<noteq> []" "decimalValue ''2019'' \<le> 2147483647"
  by (simp_all add: isDigit_def charCode_def decimalValue_years)

lemma year_range_example:
  "getFilteredCards (noFilters\<lparr>year_f := Some ''2010-2019''\<rparr>) twoCardsDb = Inr [toppsCard]"
  using yearFilters_range[OF digits_years]
  by (simp add: getFilteredCards_def noFilters_def searchFilters_def eqFilters_def selective_def
      twoCardsDb_def toppsCard_def ruthCard_def orderBy_def desc_def decimalValue_years)

lemma no_filter_example:
  "getFilteredCards noFilters twoCardsDb = Inr [toppsCard, ruthCard]"
  by (simp add: getFilteredCards_def noFilters_def searchFilters_def eqFilters_def selective_def
      yearFilters_def twoCardsDb_def toppsCard_def ruthCard_def orderBy_def desc_def)

subsection \<open>Year filters outside the decimal digits\<close>

lemma Number_empty: "Number [] = Fin 0"
  by (simp add: Number_def trim_def)

lemma Number_2011: "Number ''2011'' = Fin 2011"
  using Number_digits[of "''2011''"]
  by (simp add: isDigit_def charCode_def decimalValue_def digitVal_def)

lemma Number_2000: "Number ''2000'' = Fin 2000"
  using Number_digits[of "''2000''"]
  by (simp add: isDigit_def charCode_def decimalValue_def digitVal_def)

lemma Number_large: "Number ''2147483648'' = Fin 2147483648"
  using Number_digits[of "''2147483648''"]
  by (simp add: isDigit_def charCode_def decimalValue_def digitVal_def)

lemma Number_pre: "Number ''pre'' = NaN"
  by (simp add: Number_def trim_def isWhiteSpace_def charCode_def basePrefix_def
      signedDecimal_def unsignedDecimal_def isDigit_def Let_def)

lemma yearFilters_signed:
  "yearFilters (Some ''-2011'') = Inr [\<lambda>c. 0 \<le> year c \<and> year c \<le> 2011]"
  by (simp add: yearFilters_def selective_def includes_char Number_empty Number_2011
      int4_param_def)

lemma yearFilters_large: "yearFilters (Some ''2147483648'') = Inl QueryError"
  by (simp add: yearFilters_def selective_def includes_char Number_large int4_param_def)

lemma yearFilters_pre2000: "yearFilters (Some ''pre-2000'') = Inl QueryError"
  by (simp add: yearFilters_def selective_def includes_char Number_pre Number_2000
      int4_param_def)


text \<open>
  The year option \<open>pre-2000\<close> of the filter bar includes the separator, so it is read
  as a range whose start is not a number, and the query fails on every database.
\<close>

lemma year_filter_pre2000:
  "getFilteredCards (noFilters\<lparr>year_f := Some ''pre-2000''\<rparr>) db = Inl QueryError"
  by (simp add: getFilteredCards_def noFilters_def yearFilters_pre2000)

subsection \<open>The claims on the card repository\<close>

text \<open>
  Claim C3, as the code has it. Let \<open>a\<close> and \<open>b\<close> be non-empty strings of decimal
  digits, without a sign, whose values fit the 32-bit \<open>year\<close> column. For every database and every sort order, the list
  operation with the year filter \<open>a-b\<close> succeeds and returns exactly the cards whose
  year lies between the two values, both included; with the year filter \<open>a\<close> it
  succeeds and returns exactly the cards whose year is the value of \<open>a\<close>.
\<close>

theorem year_filter_range_and_exact:
  assumes "list_all isDigit a" "a \<noteq> []" "decimalValue a \<le> 2147483647"
    and "list_all isDigit b" "b \<noteq> []" "decimalValue b \<le> 2147483647"
  shows "(\<exists>rs. getFilteredCards (noFilters\<lparr>year_f := Some (a @ ''-'' @ b), sortBy := sb\<rparr>) db = Inr rs
            \<and> mset rs = filter_mset (\<lambda>c. int (decimalValue a) \<le> year c \<and> year c \<le> int (decimalValue b))
                           (mset (cards db)))
       \<and> (\<exists>rs. getFilteredCards (noFilters\<lparr>year_f := Some a, sortBy := sb\<rparr>) db = Inr rs
            \<and> mset rs = filter_mset (\<lambda>c. year c = int (decimalValue a)) (mset (cards db)))"
  using yearFilters_range[OF assms] yearFilters_exact[OF assms(1-3)]
  by (simp add: getFilteredCards_def noFilters_def searchFilters_def eqFilters_def selective_def
      mset_orderBy)

theorem year_filter_range_and_exact_witness:
  "list_all isDigit ''2010'' \<and> ''2010'' \<noteq> [] \<and> decimalValue ''2010'' \<le> 2147483647
   \<and> list_all isDigit ''2019'' \<and> ''2019'' \<noteq> [] \<and> decimalValue ''2019'' \<le> 2147483647
   \<and> (\<exists>rs. getFilteredCards (noFilters\<lparr>year_f := Some (''2010'' @ ''-'' @ ''2019''), sortBy := None\<rparr>) twoCardsDb = Inr rs
          \<and> mset rs = filter_mset (\<lambda>c. int (decimalValue ''2010'') \<le> year c \<and> year c \<le> int (decimalValue ''2019''))
                         (mset (cards twoCardsDb)))
   \<and> (\<exists>rs. getFilteredCards (noFilters\<lparr>year_f := Some ''2010'', sortBy := None\<rparr>) twoCardsDb = Inr rs
          \<and> mset rs = filter_mset (\<lambda>c. year c = int (decimalValue ''2010'')) (mset (cards twoCardsDb)))
   \<and> getFilteredCards (noFilters\<lparr>year_f := Some ''2010-2019''\<rparr>) twoCardsDb = Inr [toppsCard]"
  using year_filter_range_and_exact[OF digits_years, of None twoCardsDb] digits_years
    year_range_example
  by blast

text \<open>
  Claim C3, as the specification states it, fails. The integer string \<open>-2011\<close>
  includes the separator and is read as the range from 0 to 2011: no card has the
  year \<open>-2011\<close>, and the list operation returns both cards. The integer string
  \<open>2147483648\<close> does not fit the 32-bit column: no card has that year, and the query
  fails instead of returning the empty sequence.
\<close>

theorem year_filter_signed_or_large_counterexample:
  "filter (\<lambda>c. year c = - 2011) (cards twoCardsDb) = []
   \<and> getFilteredCards (noFilters\<lparr>year_f := Some ''-2011''\<rparr>) twoCardsDb
       = Inr [toppsCard, ruthCard]
   \<and> filter (\<lambda>c. year c = 2147483648) (cards twoCardsDb) = []
   \<and> getFilteredCards (noFilters\<lparr>year_f := Some ''2147483648''\<rparr>) twoCardsDb
       = Inl QueryError"
  by (simp add: getFilteredCards_def noFilters_def yearFilters_signed yearFilters_large
      searchFilters_def eqFilters_def selective_def twoCardsDb_def toppsCard_def ruthCard_def
      orderBy_def desc_def)


text \<open>
  Claim C1, as the code has it. Let \<open>s\<close> be a non-empty search string without the
  characters \<open>%\<close>, \<open>_\<close> and backslash. For every database and every sort order, the
  list operation with the filter \<open>search = s\<close> succeeds and returns exactly the cards
  in which \<open>s\<close> occurs, letter case included, as a contiguous part of the player
  name, of the brand, of the card set or of the notes.
\<close>

theorem search_literal_substring:
  assumes "s \<noteq> []" "literal s"
  shows "\<exists>rs. getFilteredCards (noFilters\<lparr>search := Some s, sortBy := sb\<rparr>) db = Inr rs
           \<and> mset rs = filter_mset (\<lambda>c. sublist s (playerName c) \<or> sublist s (brand c)
                                      \<or> occurs_in s (cardSet c) \<or> occurs_in s (notes' c))
                          (mset (cards db))"
  using assms like_occurs[OF assms(2)]
  by (simp add: getFilteredCards_def noFilters_def searchFilters_def eqFilters_def selective_def
      yearFilters_def mset_orderBy occurs_in_def)

theorem search_literal_substring_witness:
  "''Topps'' \<noteq> [] \<and> literal ''Topps''
   \<and> (\<exists>rs. getFilteredCards (noFilters\<lparr>search := Some ''Topps'', sortBy := None\<rparr>) twoCardsDb = Inr rs
          \<and> mset rs = filter_mset (\<lambda>c. sublist ''Topps'' (playerName c) \<or> sublist ''Topps'' (brand c)
                                      \<or> occurs_in ''Topps'' (cardSet c) \<or> occurs_in ''Topps'' (notes' c))
                         (mset (cards twoCardsDb)))"
proof -
  have a: "''Topps'' \<noteq> []" "literal ''Topps''" by (simp_all add: literal_def)
  from search_literal_substring[OF a, of None twoCardsDb] a show ?thesis by blast
qed

text \<open>
  Claim C1, as the specification states it, fails. The brand of one card is
  \<open>Topps\<close>, so the search string \<open>topps\<close> occurs in it when case is ignored, and the
  list operation with \<open>search = topps\<close> returns no card. The search string \<open>_\<close> occurs
  nowhere in the other card, and the list operation with \<open>search = _\<close> returns it.
\<close>

theorem search_ignores_case_counterexample:
  "search_spec ''topps'' toppsCard
   \<and> getFilteredCards (noFilters\<lparr>search := Some ''topps''\<rparr>) twoCardsDb = Inr []
   \<and> \<not> search_spec ''_'' ruthCard
   \<and> getFilteredCards (noFilters\<lparr>search := Some ''_''\<rparr>) twoCardsDb = Inr [toppsCard, ruthCard]"
  by code_simp

text \<open>
  Claim C7. For every database, \<open>deleteAllCards\<close> returns the number of rows that the
  \<open>cards\<close> table held before the call, and in the database it leaves the list
  operation without filters (and \<open>getAllCards\<close>) returns the empty sequence.
\<close>

theorem deleteAll_count_then_empty:
  "fst (deleteAllCards db) = length (cards db)
   \<and> getFilteredCards noFilters (snd (deleteAllCards db)) = Inr []
   \<and> getAllCards (snd (deleteAllCards db)) = []"
  by (simp add: deleteAllCards_def getFilteredCards_def noFilters_def searchFilters_def
      eqFilters_def selective_def yearFilters_def orderBy_def desc_def getAllCards_def)


section \<open>The price estimator: proofs\<close>

lemma random_range:
  assumes "min' \<le> max'"
  shows "min' \<le> fst (random seed min' max')" and "fst (random seed min' max') \<le> max'"
proof -
  define x where "x = sin (real_of_int seed) * 10000"
  define r where "r = x - real_of_int \<lfloor>x\<rfloor>"
  define k where "k = real_of_int (max' - min' + 1)"
  have r0: "0 \<le> r" and r1: "r < 1" unfolding r_def by linarith+
  have k1: "1 \<le> k" using assms by (simp add: k_def)
  have v: "fst (random seed min' max') = \<lfloor>r * k + real_of_int min'\<rfloor>"
    by (simp add: random_def Let_def x_def r_def k_def)
  have "0 \<le> r * k" using r0 k1 by simp
  then have "real_of_int min' \<le> r * k + real_of_int min'" by simp
  then show "min' \<le> fst (random seed min' max')" unfolding v by (simp add: le_floor_iff)
  have "r * k < k" using r1 k1 by simp
  then have "r * k + real_of_int min' < real_of_int (max' + 1)" by (simp add: k_def)
  then have "\<lfloor>r * k + real_of_int min'\<rfloor> < max' + 1" by (simp only: floor_less_iff)
  then show "fst (random seed min' max') \<le> max'" unfolding v by simp
qed

lemma random_seed: "snd (random seed a b) = seed + 1"
  by (simp add: random_def Let_def)


lemma length_genItems: "length (genItems n q b seed) = n"
  by (induction n arbitrary: seed) (auto simp: split_beta)

lemma length_generatedItems:
  "5 \<le> length (generatedItems q) \<and> length (generatedItems q) \<le> 15"
proof -
  have "generatedItems q = genItems (nat (fst (random (seedOf q + 1) 5 15))) q
          (termPrice (toLowerCase q) * (1 + real_of_int (fst (random (seedOf q) (- 20) 20)) / 100))
          (seedOf q + 1 + 1)"
    by (simp add: generatedItems_def split_beta random_seed Let_def)
  moreover have "5 \<le> fst (random (seedOf q + 1) 5 15)" "fst (random (seedOf q + 1) 5 15) \<le> 15"
    using random_range[of 5 15] by auto
  ultimately show ?thesis by (simp only: length_genItems) linarith
qed

lemma fold_min_Min: "fold min ps (p::real) = Min (set (p # ps))"
  by (simp only: Min.set_eq_fold)

lemma fold_max_Max: "fold max ps (p::real) = Max (set (p # ps))"
  by (simp only: Max.set_eq_fold)

lemma Math_min_Min: "prices \<noteq> [] \<Longrightarrow> Math_min prices = Fin (Min (set prices))"
  by (cases prices) (simp_all add: Math_min_def fold_min_Min del: set_simps)

lemma Math_max_Max: "prices \<noteq> [] \<Longrightarrow> Math_max prices = Fin (Max (set prices))"
  by (cases prices) (simp_all add: Math_max_def fold_max_Max del: set_simps)

lemma average_mean: "prices \<noteq> [] \<Longrightarrow> average prices = Fin (sum_list prices / real (length prices))"
proof -
  have "foldl (\<lambda>sum p. sum + p) a prices = a + sum_list prices" for a :: real
    by (induction prices arbitrary: a) auto
  from this[of 0] show "prices \<noteq> [] \<Longrightarrow> ?thesis" by (simp add: average_def)
qed

lemma median_spec_eq: "prices \<noteq> [] \<Longrightarrow> median prices = Fin (median_spec prices)"
proof -
  assume "prices \<noteq> []"
  then have "sort prices \<noteq> []" by (metis length_sort length_0_conv)
  then show ?thesis
    by (simp add: median_def median_spec_def Let_def even_iff_mod_2_eq_zero)
qed

lemma median_between:
  assumes "prices \<noteq> []"
  shows "Min (set prices) \<le> median_spec prices" "median_spec prices \<le> Max (set prices)"
proof -
  let ?s = "sort prices" and ?n = "length prices"
  have n: "0 < ?n" using assms by simp
  have bound: "Min (set prices) \<le> ?s ! i \<and> ?s ! i \<le> Max (set prices)" if "i < ?n" for i
  proof -
    from that have "?s ! i \<in> set ?s" by (intro nth_mem) simp
    then have "?s ! i \<in> set prices" by simp
    then show ?thesis by simp
  qed
  have m: "?n div 2 < ?n" using n by simp
  have m1: "?n div 2 - 1 < ?n" using n by linarith
  from bound[OF m] bound[OF m1]
  show "Min (set prices) \<le> median_spec prices" "median_spec prices \<le> Max (set prices)"
    by (auto simp: median_spec_def Let_def)
qed

text \<open>
  Claim C4. For every query for which the estimator generates at least one item, the
  average, the minimum, the maximum and the median of the result are those of the
  prices of all generated items (not of the ten items returned): the arithmetic mean,
  the least price, the greatest price, and the median in the specification's wording;
  and the minimum is at most the median, which is at most the maximum.
\<close>

theorem statistics_over_all_items:
  assumes "generatedItems q \<noteq> []"
  shows "let prices = map price (generatedItems q); r = fst (scrapeEbayPrices q console)
         in averagePrice r = Fin (sum_list prices / real (length prices))
          \<and> minPrice r = Fin (Min (set prices))
          \<and> maxPrice r = Fin (Max (set prices))
          \<and> medianPrice r = Fin (median_spec prices)
          \<and> Min (set prices) \<le> median_spec prices
          \<and> median_spec prices \<le> Max (set prices)"
proof -
  have ne: "map price (generatedItems q) \<noteq> []" using assms by simp
  show ?thesis
    using average_mean[OF ne] Math_min_Min[OF ne] Math_max_Max[OF ne] median_spec_eq[OF ne]
      median_between[OF ne]
    by (simp add: scrapeEbayPrices_def Let_def)
qed

theorem statistics_over_all_items_witness:
  "generatedItems ''psa'' \<noteq> []
   \<and> (let prices = map price (generatedItems ''psa''); r = fst (scrapeEbayPrices ''psa'' [])
      in averagePrice r = Fin (sum_list prices / real (length prices))
       \<and> minPrice r = Fin (Min (set prices))
       \<and> maxPrice r = Fin (Max (set prices))
       \<and> medianPrice r = Fin (median_spec prices)
       \<and> Min (set prices) \<le> median_spec prices
       \<and> median_spec prices \<le> Max (set prices))"
proof -
  have a: "generatedItems ''psa'' \<noteq> []" using length_generatedItems[of "''psa''"] by auto
  from a statistics_over_all_items[OF a, of "[]"] show ?thesis by (rule conjI)
qed

text \<open>
  Claim C5. For every query, the items returned are the first ten of the generated
  items, so at most ten; \<open>totalResults\<close> is the number of generated items, and it is
  at least the number of items returned.
\<close>

theorem items_truncated_total_kept:
  "let r = fst (scrapeEbayPrices q console)
   in items r = take 10 (generatedItems q)
    \<and> length (items r) \<le> 10
    \<and> totalResults r = length (generatedItems q)
    \<and> length (items r) \<le> totalResults r"
  by (simp add: scrapeEbayPrices_def Let_def)

subsection \<open>The seed and what depends on it\<close>

lemma seedOf_sum: "seedOf q = (\<Sum>c\<leftarrow>q. int (charCode c))"
proof -
  have "foldl (\<lambda>acc char. acc + int (charCode char)) a q = a + (\<Sum>c\<leftarrow>q. int (charCode c))" for a
    by (induction q arbitrary: a) auto
  from this[of 0] show ?thesis by (simp add: seedOf_def)
qed

lemma generatedItems_trace:
  "generatedItems q =
     genItems (nat (fst (random (seedOf q + 1) 5 15))) q
       (termPrice (toLowerCase q) * (1 + real_of_int (fst (random (seedOf q) (- 20) 20)) / 100))
       (seedOf q + 2)"
  by (simp add: generatedItems_def split_beta random_seed Let_def add.commute)

lemma genItem_query:
  "snd (genItem q b s) = snd (genItem q' b s)
   \<and> numbers_of (fst (genItem q b s)) = numbers_of (fst (genItem q' b s))"
  by (simp add: genItem_def split_beta Let_def numbers_of_def)

lemma genItems_query:
  "map numbers_of (genItems n q b s) = map numbers_of (genItems n q' b s)"
proof (induction n arbitrary: s)
  case 0
  then show ?case by simp
next
  case (Suc n)
  from genItem_query[of q b s q'] Suc.IH[of "snd (genItem q' b s)"]
  show ?case by (simp add: split_beta)
qed

lemma prices_numbers: "map price xs = map fst (map numbers_of xs)"
  by (simp add: numbers_of_def)

lemma same_seed_same_numbers:
  assumes "seedOf q = seedOf q'" "termPrice (toLowerCase q) = termPrice (toLowerCase q')"
  shows "map numbers_of (generatedItems q) = map numbers_of (generatedItems q')"
  using assms genItems_query by (simp add: generatedItems_trace)


text \<open>
  Claim C6. For every query, the analysis returned does not depend on the console
  the call starts from, and a second call with the same query, made after the first,
  returns the same analysis as the first. The cause is the seed: with \<open>S\<close> the sum of
  the character codes of the query, the perturbation of the base price is drawn at
  the generator state \<open>S\<close>, the number of items at \<open>S + 1\<close>, and the items from
  \<open>S + 2\<close> on. So two queries with the same sum of character codes and the same
  base price from their terms get the same prices, dates, links and images, item by
  item, the same statistics and the same total.
\<close>

theorem same_query_same_analysis:
  "fst (scrapeEbayPrices q console1) = fst (scrapeEbayPrices q console2)
   \<and> fst (scrapeEbayPrices q (snd (scrapeEbayPrices q console1))) = fst (scrapeEbayPrices q console1)
   \<and> (let S = (\<Sum>c\<leftarrow>q. int (charCode c))
      in generatedItems q =
           genItems (nat (fst (random (S + 1) 5 15))) q
             (termPrice (toLowerCase q) * (1 + real_of_int (fst (random S (- 20) 20)) / 100))
             (S + 2))
   \<and> ((\<Sum>c\<leftarrow>q. int (charCode c)) = (\<Sum>c\<leftarrow>q'. int (charCode c))
       \<and> termPrice (toLowerCase q) = termPrice (toLowerCase q')
       \<longrightarrow> map numbers_of (generatedItems q) = map numbers_of (generatedItems q')
         \<and> (let r = fst (scrapeEbayPrices q console1); r' = fst (scrapeEbayPrices q' console2)
            in map numbers_of (items r) = map numbers_of (items r')
             \<and> averagePrice r = averagePrice r' \<and> minPrice r = minPrice r'
             \<and> maxPrice r = maxPrice r' \<and> medianPrice r = medianPrice r'
             \<and> totalResults r = totalResults r'))"
proof (intro conjI impI)
  show "fst (scrapeEbayPrices q console1) = fst (scrapeEbayPrices q console2)"
    by (simp add: scrapeEbayPrices_def Let_def)
  show "fst (scrapeEbayPrices q (snd (scrapeEbayPrices q console1))) = fst (scrapeEbayPrices q console1)"
    by (simp add: scrapeEbayPrices_def Let_def)
  show "let S = (\<Sum>c\<leftarrow>q. int (charCode c))
      in generatedItems q =
           genItems (nat (fst (random (S + 1) 5 15))) q
             (termPrice (toLowerCase q) * (1 + real_of_int (fst (random S (- 20) 20)) / 100))
             (S + 2)"
    unfolding Let_def seedOf_sum[symmetric] by (rule generatedItems_trace)
next
  assume h: "(\<Sum>c\<leftarrow>q. int (charCode c)) = (\<Sum>c\<leftarrow>q'. int (charCode c))
       \<and> termPrice (toLowerCase q) = termPrice (toLowerCase q')"
  then have s: "seedOf q = seedOf q'" and t: "termPrice (toLowerCase q) = termPrice (toLowerCase q')"
    by (simp_all add: seedOf_sum)
  show n: "map numbers_of (generatedItems q) = map numbers_of (generatedItems q')"
    using s t by (rule same_seed_same_numbers)
  then have p: "map price (generatedItems q) = map price (generatedItems q')"
    by (simp only: prices_numbers)
  from n have l: "length (generatedItems q) = length (generatedItems q')"
    by (rule map_eq_imp_length_eq)
  from n have k: "map numbers_of (take 10 (generatedItems q)) = map numbers_of (take 10 (generatedItems q'))"
    by (simp only: take_map[symmetric])
  show "let r = fst (scrapeEbayPrices q console1); r' = fst (scrapeEbayPrices q' console2)
            in map numbers_of (items r) = map numbers_of (items r')
             \<and> averagePrice r = averagePrice r' \<and> minPrice r = minPrice r'
             \<and> maxPrice r = maxPrice r' \<and> medianPrice r = medianPrice r'
             \<and> totalResults r = totalResults r'"
    using p l k by (simp add: scrapeEbayPrices_def Let_def)
qed

theorem same_query_same_analysis_witness:
  "(\<Sum>c\<leftarrow>''psa 10''. int (charCode c)) = (\<Sum>c\<leftarrow>''10 psa''. int (charCode c))
   \<and> termPrice (toLowerCase ''psa 10'') = termPrice (toLowerCase ''10 psa'')
   \<and> map numbers_of (generatedItems ''psa 10'') = map numbers_of (generatedItems ''10 psa'')
   \<and> (let r = fst (scrapeEbayPrices ''psa 10'' []); r' = fst (scrapeEbayPrices ''10 psa'' [])
      in map numbers_of (items r) = map numbers_of (items r')
       \<and> averagePrice r = averagePrice r' \<and> minPrice r = minPrice r'
       \<and> maxPrice r = maxPrice r' \<and> medianPrice r = medianPrice r'
       \<and> totalResults r = totalResults r')"
proof -
  have a: "(\<Sum>c\<leftarrow>''psa 10''. int (charCode c)) = (\<Sum>c\<leftarrow>''10 psa''. int (charCode c))"
    by (simp add: charCode_def)
  have b: "termPrice (toLowerCase ''psa 10'') = termPrice (toLowerCase ''10 psa'')"
    by code_simp
  have c: "map numbers_of (generatedItems ''psa 10'') = map numbers_of (generatedItems ''10 psa'')
     \<and> (let r = fst (scrapeEbayPrices ''psa 10'' []); r' = fst (scrapeEbayPrices ''10 psa'' [])
        in map numbers_of (items r) = map numbers_of (items r')
         \<and> averagePrice r = averagePrice r' \<and> minPrice r = minPrice r'
         \<and> maxPrice r = maxPrice r' \<and> medianPrice r = medianPrice r'
         \<and> totalResults r = totalResults r')"
    by (rule same_query_same_analysis[of "''psa 10''" "[]" "[]" "''10 psa''",
          THEN conjunct2, THEN conjunct2, THEN conjunct2, THEN mp, OF conjI, OF a b])
  show ?thesis by (rule conjI[OF a conjI[OF b c]])
qed



section \<open>The import route: proofs\<close>

subsection \<open>The results follow the records\<close>

lemma length_processRecords: "length (fst (processRecords shw rs db)) = length rs"
  by (induction rs arbitrary: db) (auto simp: split_beta)

lemma nth_processRecords:
  "i < length rs \<Longrightarrow>
   fst (processRecords shw rs db) ! i =
     fst (processRecord shw (rs ! i) (snd (processRecords shw (take i rs) db)))"
proof (induction rs arbitrary: i db)
  case Nil
  then show ?case by simp
next
  case (Cons r rs)
  show ?case
  proof (cases i)
    case 0
    then show ?thesis by (simp add: split_beta)
  next
    case (Suc j)
    with Cons.prems have "j < length rs" by simp
    from Cons.IH[OF this] Suc show ?thesis by (simp add: split_beta)
  qed
qed

lemma nth_import:
  "i < length records \<Longrightarrow>
   fst (processRecords shw (map (mapRecord shw m) records) db) ! i =
     fst (processRecord shw (mapRecord shw m (records ! i))
           (snd (processRecords shw (map (mapRecord shw m) (take i records)) db)))"
  using nth_processRecords[of i "map (mapRecord shw m) records" shw db] by (simp add: take_map)

lemma results_import:
  "results (fst (importCards shw m records db)) = fst (processRecords shw (map (mapRecord shw m) records) db)"
  by (simp add: importCards_def split_beta Let_def)

lemma route_import:
  "importRoute shw (Some (Some m, Some records)) db =
      (Status200 (fst (importCards shw m records db)), snd (importCards shw m records db))"
  by (simp add: importRoute_def split_beta)

lemma message_import:
  "message (fst (importCards shw m records db)) =
     ''Import completed: ''
     @ showNat (length (filter success (results (fst (importCards shw m records db)))))
     @ '' cards imported, ''
     @ showNat (length (filter (\<lambda>r. \<not> success r) (results (fst (importCards shw m records db)))))
     @ '' failed''"
  by (simp add: importCards_def split_beta Let_def)

subsection \<open>The outcome of a record and the state of the database\<close>

lemma rowOf_defined_any:
  "(rowOf data i n = None) = (rowOf data j k = None)"
  by (auto simp: rowOf_def split: option.splits prod.splits)

lemma rowOf_userId:
  "rowOf data i n = Some c \<Longrightarrow> rowOf data j k = Some c' \<Longrightarrow> userId c' = userId c"
  by (auto simp: rowOf_def split: option.splits prod.splits)

lemma createCard_users: "users (snd (createCard data db)) = users db"
  by (auto simp: createCard_def split: option.splits)

lemma processRecord_users: "users (snd (processRecord shw c db)) = users db"
  using createCard_users[of _ db]
  by (auto simp: processRecord_def Let_def split: sum.splits prod.splits) (metis snd_conv)+

lemma processRecords_users: "users (snd (processRecords shw cs db)) = users db"
  by (induction cs arbitrary: db) (auto simp: split_beta processRecord_users)

lemma createCard_same_outcome:
  assumes "users db' = users db"
  shows "(\<exists>c. fst (createCard data db) = Inr c) = (\<exists>c. fst (createCard data db') = Inr c)"
proof (cases "rowOf data (nextId db) (clock db)")
  case None
  then have "rowOf data (nextId db') (clock db') = None" using rowOf_defined_any by blast
  with None show ?thesis by (simp add: createCard_def)
next
  case (Some c)
  then obtain c' where c': "rowOf data (nextId db') (clock db') = Some c'"
    using rowOf_defined_any[of data "nextId db" "clock db" "nextId db'" "clock db'"] by auto
  from rowOf_userId[OF Some c'] have "userId c' = userId c" .
  with Some c' assms show ?thesis by (auto simp: createCard_def split: option.splits)
qed

lemma processRecord_same_outcome:
  assumes "users db' = users db"
  shows "success (fst (processRecord shw c db')) = success (fst (processRecord shw c db))"
    and "\<not> success (fst (processRecord shw c db)) \<Longrightarrow>
         fst (processRecord shw c db') = fst (processRecord shw c db)"
proof -
  show "success (fst (processRecord shw c db')) = success (fst (processRecord shw c db))"
  proof (cases "safeParse (insertCardSchema shw) c")
    case (Inl issues)
    then show ?thesis by (simp add: processRecord_def Let_def)
  next
    case (Inr data)
    from createCard_same_outcome[OF assms, of data]
    show ?thesis using Inr
      by (cases "createCard data db"; cases "createCard data db'")
         (auto simp: processRecord_def Let_def split: sum.splits)
  qed
  then show "\<not> success (fst (processRecord shw c db)) \<Longrightarrow>
         fst (processRecord shw c db') = fst (processRecord shw c db)"
    by (cases "safeParse (insertCardSchema shw) c"; cases "createCard (projr (safeParse (insertCardSchema shw) c)) db";
        cases "createCard (projr (safeParse (insertCardSchema shw) c)) db'")
       (auto simp: processRecord_def Let_def split: sum.splits)
qed

lemma outcome_any_db:
  assumes "users db' = users db"
  shows "success (fst (processRecord shw c (snd (processRecords shw cs db))))
           = success (fst (processRecord shw c db'))
         \<and> (\<not> success (fst (processRecord shw c (snd (processRecords shw cs db)))) \<longrightarrow>
              fst (processRecord shw c (snd (processRecords shw cs db)))
                = fst (processRecord shw c db'))"
proof -
  have e: "users (snd (processRecords shw cs db)) = users db'"
    using assms by (simp add: processRecords_users)
  from processRecord_same_outcome[OF e, of shw c] show ?thesis by blast
qed

subsection \<open>A field without a value in the mapping\<close>

lemma setProp_other: "k \<noteq> f \<Longrightarrow> map_of (setProp k v ob) f = map_of ob f"
  by (simp add: setProp_def update_conv')

lemma assign_other: "k \<noteq> f \<Longrightarrow> map_of (assign k v ob) f = map_of ob f"
  by (simp add: assign_def setProp_other)

lemma mapFields_unmapped:
  assumes "unmapped f m row"
  shows "map_of (mapFields m row) f = None"
proof -
  have "map_of (foldl (\<lambda>mappedRecord (cardField, fileField).
              if fileField \<noteq> [] \<and> fileField \<noteq> ''none'' \<and> getMember row fileField \<noteq> JUndefined
              then assign cardField (getMember row fileField) mappedRecord
              else mappedRecord) acc m) f = None"
    if "map_of acc f = None" "unmapped f m row" for acc
    using that
  proof (induction m arbitrary: acc)
    case Nil
    then show ?case by simp
  next
    case (Cons e m)
    obtain cf ff where e: "e = (cf, ff)" by (cases e)
    from Cons.prems(2) have rest: "unmapped f m row"
      and here: "cf \<noteq> f \<or> ff = [] \<or> ff = ''none'' \<or> getMember row ff = JUndefined"
      by (simp_all add: unmapped_def e)
    let ?acc = "if ff \<noteq> [] \<and> ff \<noteq> ''none'' \<and> getMember row ff \<noteq> JUndefined
                then assign cf (getMember row ff) acc else acc"
    have "map_of ?acc f = None" using here Cons.prems(1) by (auto simp: assign_other)
    from Cons.IH[OF this rest] show ?case by (simp add: e)
  qed
  from this[of "[]"] assms show ?thesis by (simp add: mapFields_def)
qed

lemma convertNumbers_sport:
  "map_of (convertNumbers shw ob) ''sport'' = map_of ob ''sport''"
  by (simp add: convertNumbers_def Let_def setProp_other)

lemma mapRecord_unmapped_sport:
  "unmapped ''sport'' m row \<Longrightarrow> map_of (mapRecord shw m row) ''sport'' = None"
  by (simp add: mapRecord_def convertNumbers_sport mapFields_unmapped)

lemma safeParse_no_sport:
  assumes "map_of candidate ''sport'' = None"
  shows "\<exists>issues. safeParse (insertCardSchema shw) candidate = Inl issues
           \<and> Required ''sport'' \<in> set issues"
proof -
  have s: "getProp candidate ''sport'' = JUndefined" using assms by (simp add: getProp_def)
  let ?parsed = "map (\<lambda>(k, validator). (k, validator k (getProp candidate k))) (insertCardSchema shw)"
  let ?issues = "concat (map (\<lambda>(k, r). case r of Inl i \<Rightarrow> [i] | Inr _ \<Rightarrow> []) ?parsed)"
  have mem: "Required ''sport'' \<in> set ?issues"
    by (simp add: insertCardSchema_def zString_def s)
  then have ne: "?issues \<noteq> []" by (metis empty_iff list.set(1))
  have "safeParse (insertCardSchema shw) candidate = Inl ?issues"
    unfolding safeParse_def Let_def by (simp only: ne if_False)
  with mem show ?thesis by blast
qed

lemma objectPrototype_inherited:
  "objectPrototype k \<noteq> JUndefined \<Longrightarrow> inherited_value (objectPrototype k)"
  by (simp add: objectPrototype_def inherited_value_def split: if_splits)

lemma getMember_no_cell: "map_of r k = None \<Longrightarrow> getMember r k = objectPrototype k"
  by (simp add: getMember_def)

lemma mapFields_no_cell:
  assumes "no_cell f m r"
  shows "map_of (mapFields m r) f = None
         \<or> (\<exists>v. map_of (mapFields m r) f = Some v \<and> inherited_value v)"
proof -
  let ?P = "\<lambda>acc. map_of acc f = None \<or> (\<exists>v. map_of acc f = Some v \<and> inherited_value v)"
  have "?P (foldl (\<lambda>mappedRecord (cardField, fileField).
              if fileField \<noteq> [] \<and> fileField \<noteq> ''none'' \<and> getMember r fileField \<noteq> JUndefined
              then assign cardField (getMember r fileField) mappedRecord
              else mappedRecord) acc m)"
    if "?P acc" "no_cell f m r" for acc
    using that
  proof (induction m arbitrary: acc)
    case Nil
    then show ?case by simp
  next
    case (Cons e m)
    obtain cf ff where e: "e = (cf, ff)" by (cases e)
    from Cons.prems(2) have rest: "no_cell f m r"
      and here: "cf \<noteq> f \<or> ff = [] \<or> ff = ''none'' \<or> map_of r ff = None"
      by (simp_all add: no_cell_def e)
    let ?acc = "if ff \<noteq> [] \<and> ff \<noteq> ''none'' \<and> getMember r ff \<noteq> JUndefined
                then assign cf (getMember r ff) acc else acc"
    have "?P ?acc"
    proof (cases "ff \<noteq> [] \<and> ff \<noteq> ''none'' \<and> getMember r ff \<noteq> JUndefined")
      case False
      then have "?acc = acc" by auto
      with Cons.prems(1) show ?thesis by (simp only:)
    next
      case True
      show ?thesis
      proof (cases "cf = f")
        case False
        with True Cons.prems(1) show ?thesis by (simp add: assign_other)
      next
        case cf: True
        with here True have none: "map_of r ff = None" by simp
        with True have iv: "inherited_value (getMember r ff)"
          by (simp add: getMember_no_cell objectPrototype_inherited)
        show ?thesis
        proof (cases "cf = ''__proto__''")
          case True
          with Cons.prems(1) \<open>ff \<noteq> [] \<and> ff \<noteq> ''none'' \<and> getMember r ff \<noteq> JUndefined\<close>
          show ?thesis by (simp add: assign_def)
        next
          case False
          with True cf iv show ?thesis by (simp add: assign_def setProp_def update_conv')
        qed
      qed
    qed
    from Cons.IH[OF this rest] show ?case by (simp add: e)
  qed
  from this[of "[]"] assms show ?thesis by (simp add: mapFields_def)
qed

lemma mapRecord_no_cell_sport:
  "no_cell ''sport'' m r \<Longrightarrow>
   getProp (mapRecord shw m r) ''sport'' = JUndefined
   \<or> inherited_value (getProp (mapRecord shw m r) ''sport'')"
  using mapFields_no_cell[of "''sport''" m r]
  by (auto simp: mapRecord_def getProp_def convertNumbers_sport)

lemma safeParse_sport_issue:
  assumes "getProp candidate ''sport'' = JUndefined \<or> inherited_value (getProp candidate ''sport'')"
  shows "\<exists>issues. safeParse (insertCardSchema shw) candidate = Inl issues
           \<and> (if getProp candidate ''sport'' = JUndefined then Required ''sport''
               else InvalidType ''sport'') \<in> set issues"
proof -
  let ?i = "if getProp candidate ''sport'' = JUndefined then Required ''sport'' else InvalidType ''sport''"
  have z: "zString ''sport'' (getProp candidate ''sport'') = Inl ?i"
    using assms by (auto simp: zString_def inherited_value_def split: jsval.splits)
  let ?parsed = "map (\<lambda>(k, validator). (k, validator k (getProp candidate k))) (insertCardSchema shw)"
  let ?issues = "concat (map (\<lambda>(k, r). case r of Inl i \<Rightarrow> [i] | Inr _ \<Rightarrow> []) ?parsed)"
  have mem: "?i \<in> set ?issues"
    by (simp add: insertCardSchema_def z del: if_split cong: if_cong)
  then have ne: "?issues \<noteq> []" by (metis empty_iff list.set(1))
  have "safeParse (insertCardSchema shw) candidate = Inl ?issues"
    unfolding safeParse_def Let_def by (simp only: ne if_False)
  with mem show ?thesis by blast
qed

subsection \<open>Two rows evaluated\<close>

lemma showNat_0_1: "showNat 0 = ''0''" "showNat (Suc 0) = ''1''"
  by code_simp+

lemma parseIntStr_2011: "parseIntStr None ''2011'' = Fin 2011"
  by (simp add: parseIntStr_def isWhiteSpace_def charCode_def isDigitOfBase_def digitOfBase_def
      baseValue_def Let_def)

lemma parseIntStr_1933: "parseIntStr None ''1933'' = Fin 1933"
  by (simp add: parseIntStr_def isWhiteSpace_def charCode_def isDigitOfBase_def digitOfBase_def
      baseValue_def Let_def)

lemma getMember_troutRow:
  "getMember troutRow ''Player'' = JStr ''Mike Trout''"
  "getMember troutRow ''Year'' = JStr ''2011''"
  "getMember troutRow ''Brand'' = JStr ''Topps''"
  "getMember troutRow ''Condition'' = JStr ''raw''"
  "getMember troutRow ''Sport'' = JUndefined"
  "getMember troutRow ''toString'' = JFunction ''toString''"
  by (simp_all add: getMember_def troutRow_def objectPrototype_def)

lemma getMember_ruthRow:
  "getMember ruthRow ''Player'' = JStr ''Babe Ruth''"
  "getMember ruthRow ''Sport'' = JStr ''baseball''"
  "getMember ruthRow ''Year'' = JStr ''1933''"
  "getMember ruthRow ''Brand'' = JStr ''Goudey''"
  "getMember ruthRow ''Condition'' = JStr ''psa7''"
  by (simp_all add: getMember_def ruthRow_def)

lemma mapFields_trout_noSport:
  "mapFields noSportMapping troutRow =
     [(''playerName'', JStr ''Mike Trout''), (''year'', JStr ''2011''),
      (''brand'', JStr ''Topps''), (''condition'', JStr ''raw'')]"
  by (simp add: mapFields_def noSportMapping_def getMember_troutRow assign_def setProp_def)

lemma mapFields_trout_sport:
  "mapFields sportMapping troutRow =
     [(''playerName'', JStr ''Mike Trout''), (''year'', JStr ''2011''),
      (''brand'', JStr ''Topps''), (''condition'', JStr ''raw'')]"
  by (simp add: mapFields_def sportMapping_def getMember_troutRow assign_def setProp_def)

lemma mapFields_ruth:
  "mapFields sportMapping ruthRow =
     [(''playerName'', JStr ''Babe Ruth''), (''sport'', JStr ''baseball''), (''year'', JStr ''1933''),
      (''brand'', JStr ''Goudey''), (''condition'', JStr ''psa7'')]"
  by (simp add: mapFields_def sportMapping_def getMember_ruthRow assign_def setProp_def)

lemma mapRecord_trout_noSport: "mapRecord printNumber noSportMapping troutRow = troutCandidate"
  by (simp add: mapRecord_def mapFields_trout_noSport convertNumbers_def
      getProp_def setProp_def parseInt_def parseIntStr_2011 Let_def troutCandidate_def)

lemma mapRecord_trout_sport: "mapRecord printNumber sportMapping troutRow = troutCandidate"
  by (simp add: mapRecord_def mapFields_trout_sport convertNumbers_def
      getProp_def setProp_def parseInt_def parseIntStr_2011 Let_def troutCandidate_def)

lemma processRecord_trout:
  "processRecord printNumber troutCandidate db =
     (Rejected (ValidationError (JStr ''Mike Trout'') [Required ''sport'']) troutCandidate, db)"
  by (simp add: processRecord_def safeParse_def insertCardSchema_def troutCandidate_def
      getProp_def or_else_def zString_def zNumber_def zDefault_def zCoerceNumber_def
      zOptionalNullableNumber_def Let_def)

lemma processRecord_ruth:
  "processRecord printNumber (mapRecord printNumber sportMapping ruthRow) emptyDb =
     (Imported ruthCard, emptyDb\<lparr>cards := [ruthCard], nextId := 2\<rparr>)"
  by (simp add: mapRecord_def mapFields_ruth convertNumbers_def
      getProp_def setProp_def parseInt_def parseIntStr_1933 Let_def
      processRecord_def safeParse_def insertCardSchema_def
      or_else_def zString_def zNumber_def zDefault_def zCoerceNumber_def
      zOptionalNullableNumber_def createCard_def rowOf_def textParam_def nullableTextParam_def
      float8Param_def integerParam_def nullableIntegerParam_def int4_param_def emptyDb_def
      ruthCard_def)

lemma mapFields_trout_inherited:
  "mapFields inheritedMapping troutRow =
     [(''playerName'', JStr ''Mike Trout''), (''sport'', JFunction ''toString''),
      (''year'', JStr ''2011''), (''brand'', JStr ''Topps''), (''condition'', JStr ''raw'')]"
  by (simp add: mapFields_def inheritedMapping_def getMember_troutRow assign_def setProp_def)

lemma processRecord_trout_inherited:
  "processRecord printNumber (mapRecord printNumber inheritedMapping troutRow) db =
     (Rejected (ValidationError (JStr ''Mike Trout'') [InvalidType ''sport''])
        [(''playerName'', JStr ''Mike Trout''), (''sport'', JFunction ''toString''),
         (''year'', JNum (Fin 2011)), (''brand'', JStr ''Topps''), (''condition'', JStr ''raw'')],
      db)"
  by (simp add: mapRecord_def mapFields_trout_inherited convertNumbers_def
      getProp_def setProp_def parseInt_def parseIntStr_2011 Let_def
      processRecord_def safeParse_def insertCardSchema_def
      or_else_def zString_def zNumber_def zDefault_def zCoerceNumber_def
      zOptionalNullableNumber_def)

lemma import_two_rows:
  "importCards printNumber sportMapping [ruthRow, troutRow] emptyDb =
     (\<lparr>message = ''Import completed: 1 cards imported, 1 failed'',
       results = [Imported ruthCard,
                  Rejected (ValidationError (JStr ''Mike Trout'') [Required ''sport''])
                    troutCandidate]\<rparr>,
      emptyDb\<lparr>cards := [ruthCard], nextId := 2\<rparr>)"
  by (simp add: importCards_def mapRecord_trout_sport processRecord_trout processRecord_ruth
      showNat_0_1)

subsection \<open>The claims on the import route\<close>

text \<open>
  Claim C10. For every column mapping and every sequence of parsed rows, the handler
  answers with status 200 and the response of \<open>importCards\<close>; the results are as many
  as the rows; for every position \<open>i\<close> among the rows, the result at \<open>i\<close> is the outcome
  of processing the candidate record of row \<open>i\<close> in the database left by the rows
  before it, and in any database with the same users it would be a success or a
  failure alike, and as a failure the same result; the successful and the failed
  results add up to the number of results, and they are the two counts written in the
  message.
\<close>

theorem import_results_in_row_order:
  "let (response, db1) = importCards shw m records db; rs = results response
   in importRoute shw (Some (Some m, Some records)) db = (Status200 response, db1)
    \<and> length rs = length records
    \<and> (i < length records \<longrightarrow>
         rs ! i = fst (processRecord shw (mapRecord shw m (records ! i))
                        (snd (processRecords shw (map (mapRecord shw m) (take i records)) db)))
         \<and> (\<forall>db'. users db' = users db \<longrightarrow>
               success (rs ! i) = success (fst (processRecord shw (mapRecord shw m (records ! i)) db'))
               \<and> (\<not> success (rs ! i) \<longrightarrow>
                    rs ! i = fst (processRecord shw (mapRecord shw m (records ! i)) db'))))
    \<and> length (filter success rs) + length (filter (\<lambda>r. \<not> success r) rs) = length rs
    \<and> message response =
        ''Import completed: '' @ showNat (length (filter success rs)) @ '' cards imported, ''
        @ showNat (length (filter (\<lambda>r. \<not> success r) rs)) @ '' failed''"
  unfolding Let_def split_beta
proof (intro conjI impI allI)
  show "importRoute shw (Some (Some m, Some records)) db =
      (Status200 (fst (importCards shw m records db)), snd (importCards shw m records db))"
    by (rule route_import)
  show "length (results (fst (importCards shw m records db))) = length records"
    by (simp only: results_import length_processRecords length_map)
  show "length (filter success (results (fst (importCards shw m records db))))
        + length (filter (\<lambda>r. \<not> success r) (results (fst (importCards shw m records db))))
        = length (results (fst (importCards shw m records db)))"
    by (rule sum_length_filter_compl)
  show "message (fst (importCards shw m records db)) =
     ''Import completed: ''
     @ showNat (length (filter success (results (fst (importCards shw m records db)))))
     @ '' cards imported, ''
     @ showNat (length (filter (\<lambda>r. \<not> success r) (results (fst (importCards shw m records db)))))
     @ '' failed''"
    by (rule message_import)
next
  assume i: "i < length records"
  then show n: "results (fst (importCards shw m records db)) ! i =
      fst (processRecord shw (mapRecord shw m (records ! i))
            (snd (processRecords shw (map (mapRecord shw m) (take i records)) db)))"
    by (simp only: results_import nth_import)
  fix db' :: database assume u: "users db' = users db"
  from outcome_any_db[OF u, of shw "mapRecord shw m (records ! i)" "map (mapRecord shw m) (take i records)"]
  show "success (results (fst (importCards shw m records db)) ! i) =
        success (fst (processRecord shw (mapRecord shw m (records ! i)) db'))"
    by (simp only: n)
  assume "\<not> success (results (fst (importCards shw m records db)) ! i)"
  then have ns: "\<not> success (fst (processRecord shw (mapRecord shw m (records ! i))
            (snd (processRecords shw (map (mapRecord shw m) (take i records)) db))))"
    by (simp only: n simp_thms)
  have "fst (processRecord shw (mapRecord shw m (records ! i))
            (snd (processRecords shw (map (mapRecord shw m) (take i records)) db)))
        = fst (processRecord shw (mapRecord shw m (records ! i)) db')"
    by (rule outcome_any_db[OF u, THEN conjunct2, THEN mp, OF ns])
  then show "results (fst (importCards shw m records db)) ! i =
        fst (processRecord shw (mapRecord shw m (records ! i)) db')"
    by (simp only: n)
qed

theorem import_results_in_row_order_witness:
  "(1::nat) < length [ruthRow, troutRow]
   \<and> importRoute printNumber (Some (Some sportMapping, Some [ruthRow, troutRow])) emptyDb =
       (Status200 (fst (importCards printNumber sportMapping [ruthRow, troutRow] emptyDb)),
        snd (importCards printNumber sportMapping [ruthRow, troutRow] emptyDb))
   \<and> length (results (fst (importCards printNumber sportMapping [ruthRow, troutRow] emptyDb))) = 2
   \<and> results (fst (importCards printNumber sportMapping [ruthRow, troutRow] emptyDb)) ! 1 =
       fst (processRecord printNumber (mapRecord printNumber sportMapping troutRow)
             (snd (processRecords printNumber [mapRecord printNumber sportMapping ruthRow] emptyDb)))
   \<and> fst (importCards printNumber sportMapping [ruthRow, troutRow] emptyDb) =
       \<lparr>message = ''Import completed: 1 cards imported, 1 failed'',
        results = [Imported ruthCard,
                   Rejected (ValidationError (JStr ''Mike Trout'') [Required ''sport''])
                     troutCandidate]\<rparr>"
proof -
  have a: "(1::nat) < length [ruthRow, troutRow]" by simp
  have b: "fst (importCards printNumber sportMapping [ruthRow, troutRow] emptyDb) =
       \<lparr>message = ''Import completed: 1 cards imported, 1 failed'',
        results = [Imported ruthCard,
                   Rejected (ValidationError (JStr ''Mike Trout'') [Required ''sport''])
                     troutCandidate]\<rparr>"
    by (simp add: import_two_rows)
  from import_results_in_row_order[of printNumber sportMapping "[ruthRow, troutRow]" emptyDb 1]
  have "importRoute printNumber (Some (Some sportMapping, Some [ruthRow, troutRow])) emptyDb =
       (Status200 (fst (importCards printNumber sportMapping [ruthRow, troutRow] emptyDb)),
        snd (importCards printNumber sportMapping [ruthRow, troutRow] emptyDb))
   \<and> length (results (fst (importCards printNumber sportMapping [ruthRow, troutRow] emptyDb))) = 2
   \<and> results (fst (importCards printNumber sportMapping [ruthRow, troutRow] emptyDb)) ! 1 =
       fst (processRecord printNumber (mapRecord printNumber sportMapping troutRow)
             (snd (processRecords printNumber [mapRecord printNumber sportMapping ruthRow] emptyDb)))"
    by (simp add: Let_def split_beta)
  with a b show ?thesis by blast
qed

text \<open>
  Claim C2, as the code has it. For every row and every column mapping that assigns
  no cell of the row to the sport (the mapping names no column, the column \<open>none\<close>,
  or a column the row does not have), the row is not stored. The candidate record
  has no sport, or has as its sport a member that every object inherits, when the
  name of the absent column is the name of such a member; it has no sport when the
  absent column names no such member. The schema has no default for the sport:
  validation reports the sport as required in the first case and as of invalid type
  in the second, the outcome of the row is a failure that carries the candidate
  record, and the database is left as it was.
\<close>

theorem unmapped_sport_is_rejected:
  assumes "no_cell ''sport'' m r"
  shows "let candidate = mapRecord shw m r
         in (getProp candidate ''sport'' = JUndefined
             \<or> inherited_value (getProp candidate ''sport''))
          \<and> (unmapped ''sport'' m r \<longrightarrow> getProp candidate ''sport'' = JUndefined)
          \<and> (\<exists>issues.
                (if getProp candidate ''sport'' = JUndefined then Required ''sport''
                 else InvalidType ''sport'') \<in> set issues
                \<and> processRecord shw candidate db =
                    (Rejected (ValidationError (or_else (getProp candidate ''playerName'')
                                                 (JStr ''Unknown'')) issues) candidate, db))"
proof -
  let ?c = "mapRecord shw m r"
  have s: "getProp ?c ''sport'' = JUndefined \<or> inherited_value (getProp ?c ''sport'')"
    using assms by (rule mapRecord_no_cell_sport)
  have u: "unmapped ''sport'' m r \<longrightarrow> getProp ?c ''sport'' = JUndefined"
    using mapRecord_unmapped_sport[of m r shw] by (simp add: getProp_def)
  from safeParse_sport_issue[OF s, of shw] obtain issues
    where p: "safeParse (insertCardSchema shw) ?c = Inl issues"
      and i: "(if getProp ?c ''sport'' = JUndefined then Required ''sport''
               else InvalidType ''sport'') \<in> set issues"
    by blast
  from p have "processRecord shw ?c db =
      (Rejected (ValidationError (or_else (getProp ?c ''playerName'') (JStr ''Unknown'')) issues) ?c, db)"
    by (simp add: processRecord_def Let_def)
  with i have "\<exists>issues.
      (if getProp ?c ''sport'' = JUndefined then Required ''sport''
       else InvalidType ''sport'') \<in> set issues
      \<and> processRecord shw ?c db =
          (Rejected (ValidationError (or_else (getProp ?c ''playerName'') (JStr ''Unknown'')) issues) ?c, db)"
    by (rule_tac x = issues in exI) (rule conjI)
  with s u show ?thesis unfolding Let_def by (intro conjI)
qed

theorem unmapped_sport_is_rejected_witness:
  "no_cell ''sport'' sportMapping troutRow
   \<and> mapRecord printNumber sportMapping troutRow = troutCandidate
   \<and> getProp troutCandidate ''sport'' = JUndefined
   \<and> (\<exists>issues. Required ''sport'' \<in> set issues
         \<and> processRecord printNumber troutCandidate emptyDb =
             (Rejected (ValidationError (or_else (getProp troutCandidate ''playerName'')
                                          (JStr ''Unknown'')) issues)
                troutCandidate, emptyDb))"
proof -
  have a: "no_cell ''sport'' sportMapping troutRow"
    by (simp add: no_cell_def sportMapping_def troutRow_def)
  have g: "getProp troutCandidate ''sport'' = JUndefined"
    by (simp add: troutCandidate_def getProp_def)
  from unmapped_sport_is_rejected[OF a, of printNumber emptyDb]
  have "\<exists>issues. Required ''sport'' \<in> set issues
         \<and> processRecord printNumber troutCandidate emptyDb =
             (Rejected (ValidationError (or_else (getProp troutCandidate ''playerName'')
                                          (JStr ''Unknown'')) issues)
                troutCandidate, emptyDb)"
    by (simp add: Let_def mapRecord_trout_sport g)
  with a g mapRecord_trout_sport show ?thesis by (intro conjI)
qed

text \<open>
  Claim C2, as the specification states it, fails: the mapping assigns \<open>none\<close> to the
  sport, every other required field of the row is mapped and valid, and the import
  reports the row as failed and stores no card.
\<close>

theorem unmapped_sport_counterexample:
  "map_of noSportMapping ''sport'' = Some ''none''
   \<and> importCards printNumber noSportMapping [troutRow] emptyDb =
       (\<lparr>message = ''Import completed: 0 cards imported, 1 failed'',
         results = [Rejected (ValidationError (JStr ''Mike Trout'') [Required ''sport''])
                      troutCandidate]\<rparr>,
        emptyDb)"
  by (simp add: importCards_def mapRecord_trout_noSport processRecord_trout showNat_0_1)
    (simp add: noSportMapping_def)

section \<open>The card attribute recognizer: proofs\<close>

lemma toCard_playerName:
  "toCard e cardData = Inr c \<Longrightarrow> \<not> truthy (getProp c ''playerName'') \<Longrightarrow>
   getProp c ''playerName'' = JStr []"
  by (auto simp: toCard_def Let_def getProp_def or_else_def split: sum.splits if_splits)

lemma identify_success:
  "identifyCardFromImage e img t = r \<Longrightarrow> success' r \<Longrightarrow>
   \<exists>c. card r = Some c \<and> truthy (getProp c ''playerName'')"
  by (auto simp: identifyCardFromImage_def Let_def split: if_splits sum.splits list.splits)

lemma brandOnly_toCard:
  "toCard brandOnlyEnv (JObj [(''brand'', JStr ''Topps'')]) = Inr brandOnlyCard"
  by (simp add: toCard_def readProp_def lowerOr_def getProp_def or_else_def brandOnlyEnv_def
      brandOnlyCard_def trim_def isWhiteSpace_def charCode_def Let_def)

text \<open>
  Claim C8. Whenever the image is not empty, the vision model answers with a first
  content block, a value is parsed from it, the transformation of that value yields
  a card, and the player name of the card is empty (which is what a missing or empty
  player name in the answer becomes), the result has \<open>success = false\<close>, carries the
  card and the error about the player name, and the route answers with status 422,
  that error and the card as partial data. And whenever the result has
  \<open>success = true\<close>, it carries a card whose player name is not empty.
\<close>

theorem missing_player_name_keeps_partial_data:
  "(img \<noteq> []
    \<and> image_message e (getValidMediaType t) img = Inr (block # blocks)
    \<and> extractJson e (case block of TextBlock x \<Rightarrow> x | OtherBlock \<Rightarrow> ''{}'') = Inr cardData
    \<and> toCard e cardData = Inr c
    \<and> \<not> truthy (getProp c ''playerName'')
    \<longrightarrow> getProp c ''playerName'' = JStr []
      \<and> identifyCardFromImage e img t =
          \<lparr>success' = False, card = Some c, error = Some NoPlayerName\<rparr>
      \<and> recognizeRoute e (Some (img, t)) = Unprocessable (Some NoPlayerName) (Some c))
   \<and> (success' (identifyCardFromImage e img t)
      \<longrightarrow> (\<exists>c. card (identifyCardFromImage e img t) = Some c
               \<and> truthy (getProp c ''playerName'')))"
proof (intro conjI impI)
  assume h: "img \<noteq> []
    \<and> image_message e (getValidMediaType t) img = Inr (block # blocks)
    \<and> extractJson e (case block of TextBlock x \<Rightarrow> x | OtherBlock \<Rightarrow> ''{}'') = Inr cardData
    \<and> toCard e cardData = Inr c
    \<and> \<not> truthy (getProp c ''playerName'')"
  then show "getProp c ''playerName'' = JStr []" using toCard_playerName by blast
  from h show r: "identifyCardFromImage e img t =
          \<lparr>success' = False, card = Some c, error = Some NoPlayerName\<rparr>"
    by (simp add: identifyCardFromImage_def Let_def)
  then show "recognizeRoute e (Some (img, t)) = Unprocessable (Some NoPlayerName) (Some c)"
    by (simp add: recognizeRoute_def Let_def)
next
  assume "success' (identifyCardFromImage e img t)"
  then show "\<exists>c. card (identifyCardFromImage e img t) = Some c \<and> truthy (getProp c ''playerName'')"
    using identify_success by blast
qed

theorem missing_player_name_keeps_partial_data_witness:
  "''aGVsbG8='' \<noteq> []
   \<and> image_message brandOnlyEnv (getValidMediaType ''image/png'') ''aGVsbG8=''
       = Inr (TextBlock brandOnlyAnswer # [])
   \<and> extractJson brandOnlyEnv (case TextBlock brandOnlyAnswer of TextBlock x \<Rightarrow> x | OtherBlock \<Rightarrow> ''{}'')
       = Inr (JObj [(''brand'', JStr ''Topps'')])
   \<and> toCard brandOnlyEnv (JObj [(''brand'', JStr ''Topps'')]) = Inr brandOnlyCard
   \<and> \<not> truthy (getProp brandOnlyCard ''playerName'')
   \<and> identifyCardFromImage brandOnlyEnv ''aGVsbG8='' ''image/png'' =
       \<lparr>success' = False, card = Some brandOnlyCard, error = Some NoPlayerName\<rparr>
   \<and> recognizeRoute brandOnlyEnv (Some (''aGVsbG8='', ''image/png'')) =
       Unprocessable (Some NoPlayerName) (Some brandOnlyCard)
   \<and> \<not> success' (identifyCardFromImage brandOnlyEnv ''aGVsbG8='' ''image/png'')"
proof -
  have a: "''aGVsbG8='' \<noteq> []" by simp
  have b: "image_message brandOnlyEnv (getValidMediaType ''image/png'') ''aGVsbG8=''
             = Inr (TextBlock brandOnlyAnswer # [])"
    by (simp add: brandOnlyEnv_def)
  have c: "extractJson brandOnlyEnv (case TextBlock brandOnlyAnswer of TextBlock x \<Rightarrow> x | OtherBlock \<Rightarrow> ''{}'')
             = Inr (JObj [(''brand'', JStr ''Topps'')])"
    by (simp add: extractJson_def brandOnlyEnv_def)
  have d: "\<not> truthy (getProp brandOnlyCard ''playerName'')"
    by (simp add: brandOnlyCard_def getProp_def)
  from missing_player_name_keeps_partial_data[of "''aGVsbG8=''" brandOnlyEnv "''image/png''"
      "TextBlock brandOnlyAnswer" "[]" "JObj [(''brand'', JStr ''Topps'')]" brandOnlyCard]
    a b c brandOnly_toCard d
  show ?thesis by simp
qed

end
